theory Spec2Isabelle
  imports Main "HOL-Library.Word" "HOL-Library.Signed_Division"
begin

unbundle bit_operations_syntax

section \<open>JavaScript values\<close>

text \<open>
  The values that flow through the rig bridge: \<^verbatim>\<open>undefined\<close>, \<^verbatim>\<open>null\<close>,
  booleans, numbers, strings, and objects (compared by reference, so an object is
  represented by its identity). The numbers are the integers, where JavaScript
  arithmetic is exact below \<open>2^53\<close>, and \<^verbatim>\<open>NaN\<close>, the number that \<^verbatim>\<open>parseInt\<close>
  returns for a string without digits. A string is a list of code units.
\<close>

datatype jsval = JUndefined | JNull | JBool bool | JNum int | JNaN | JStr string | JObj nat

text \<open>JavaScript truthiness (\<^verbatim>\<open>if (x)\<close>, \<^verbatim>\<open>!x\<close>, \<^verbatim>\<open>!!x\<close>).\<close>

fun truthy :: "jsval \<Rightarrow> bool" where
  "truthy JUndefined = False"
| "truthy JNull = False"
| "truthy (JBool b) = b"
| "truthy (JNum n) = (n \<noteq> 0)"
| "truthy JNaN = False"
| "truthy (JStr s) = (s \<noteq> [])"
| "truthy (JObj _) = True"

text \<open>
  Strict inequality \<^verbatim>\<open>a !== b\<close>: values of different types differ, objects are
  compared by identity, and \<^verbatim>\<open>NaN\<close> differs from every value, itself included.
\<close>

definition strict_neq :: "jsval \<Rightarrow> jsval \<Rightarrow> bool" where
  "strict_neq a b = (a = JNaN \<or> b = JNaN \<or> a \<noteq> b)"

section \<open>core/state.js: the shared rig state store\<close>

text \<open>
  \<^verbatim>\<open>broadcast\<close> serialises a data object and writes it to every SSE client. The only
  data objects the store itself sends are \<^verbatim>\<open>{ type: 'update', prop, value }\<close>.
\<close>

datatype event = Update string jsval

text \<open>
  The module's two variables. \<open>state\<close> is the object \<^verbatim>\<open>state\<close>, read as
  \<^verbatim>\<open>state[prop]\<close> (\<open>JUndefined\<close> for a property that is not there) and
  written as \<^verbatim>\<open>state[prop] = value\<close>, for every property name that JavaScript
  treats as a data property (every name but \<^verbatim>\<open>__proto__\<close>); \<open>sseClients\<close> is the
  client list, each client with the messages written to its response stream so far.
\<close>

record store =
  state :: "string \<Rightarrow> jsval"
  sseClients :: "(nat \<times> event list) list"

definition initial_state :: "string \<Rightarrow> jsval" where
  "initial_state =
     (\<lambda>_. JUndefined)
       (''connected'' := JBool False,
        ''freq'' := JNum 0,
        ''mode'' := JStr [],
        ''width'' := JNum 0,
        ''ptt'' := JBool False,
        ''lastUpdate'' := JNum 0)"

definition broadcast :: "event \<Rightarrow> store \<Rightarrow> store" where
  "broadcast data st =
     st\<lparr>sseClients := map (\<lambda>(cid, res). (cid, res @ [data])) (sseClients st)\<rparr>"

text \<open>\<open>now\<close> is the value \<^verbatim>\<open>Date.now()\<close> returns during the call.\<close>

definition updateState :: "int \<Rightarrow> string \<Rightarrow> jsval \<Rightarrow> store \<Rightarrow> store" where
  "updateState now prop v st =
     (if strict_neq (state st prop) v
      then broadcast (Update prop v)
             (st\<lparr>state := ((state st)(prop := v))(''lastUpdate'' := JNum now)\<rparr>)
      else st)"

definition addSseClient :: "nat \<Rightarrow> store \<Rightarrow> store" where
  "addSseClient cid st = st\<lparr>sseClients := sseClients st @ [(cid, [])]\<rparr>"

definition removeSseClient :: "nat \<Rightarrow> store \<Rightarrow> store" where
  "removeSseClient cid st = st\<lparr>sseClients := filter (\<lambda>c. fst c \<noteq> cid) (sseClients st)\<rparr>"

section \<open>JavaScript string primitives used by the ASCII protocols\<close>

text \<open>\<^verbatim>\<open>s.substring(a, b)\<close> (the arguments are swapped when \<open>a > b\<close>) and \<^verbatim>\<open>s.substring(a)\<close>.\<close>

definition substring :: "string \<Rightarrow> nat \<Rightarrow> nat \<Rightarrow> string" where
  "substring s a b = take (max a b - min a b) (drop (min a b) s)"

definition substringFrom :: "string \<Rightarrow> nat \<Rightarrow> string" where
  "substringFrom s a = drop a s"

text \<open>\<^verbatim>\<open>s.charAt(i)\<close>: the one-character string at \<open>i\<close>, or the empty string.\<close>

definition charAt :: "string \<Rightarrow> nat \<Rightarrow> string" where
  "charAt s i = (if i < length s then [s ! i] else [])"

text \<open>
  \<^verbatim>\<open>parseInt(s, 10)\<close>: skip leading white space, read an optional sign, then the
  longest run of decimal digits; \<open>None\<close> is \<^verbatim>\<open>NaN\<close> (no digit). The result is the
  exact integer, as in JavaScript for every input of at most 15 digits.
\<close>

definition isWhiteSpace :: "char \<Rightarrow> bool" where
  "isWhiteSpace c = (c \<in> set [CHR 0x09, CHR 0x0A, CHR 0x0B, CHR 0x0C, CHR 0x0D, CHR 0x20, CHR 0xA0])"

definition isDigit :: "char \<Rightarrow> bool" where
  "isDigit c = (48 \<le> (of_char c :: nat) \<and> (of_char c :: nat) \<le> 57)"

definition digitVal :: "char \<Rightarrow> int" where
  "digitVal c = of_char c - 48"

definition decimalValue :: "string \<Rightarrow> int" where
  "decimalValue ds = foldl (\<lambda>acc c. acc * 10 + digitVal c) 0 ds"

definition parseInt :: "string \<Rightarrow> int option" where
  "parseInt str =
     (let t = dropWhile isWhiteSpace str;
          (sign, u) = (case t of
                         c # r \<Rightarrow> if c = CHR ''-'' then (- 1, r)
                                  else if c = CHR ''+'' then (1, r) else (1, t)
                       | [] \<Rightarrow> (1, t));
          ds = takeWhile isDigit u
      in if ds = [] then None else Some (sign * decimalValue ds))"

section \<open>plugins/usb/protocol-kenwood.js\<close>

definition kenwood_MODES :: "string \<Rightarrow> string option" where
  "kenwood_MODES = map_of
     [(''1'', ''LSB''), (''2'', ''USB''), (''3'', ''CW''), (''4'', ''FM''), (''5'', ''AM''),
      (''6'', ''FSK''), (''7'', ''CW-R''), (''8'', ''DATA-LSB''), (''9'', ''FSK-R''),
      (''A'', ''DATA-USB'')]"

text \<open>
  \<^verbatim>\<open>parse(resp, updateState, getState)\<close>. The two callbacks are injected; \<open>'s\<close> is
  whatever they act on. \<^verbatim>\<open>freq > 0\<close> is false for \<^verbatim>\<open>NaN\<close>.
\<close>

definition kenwood_parse ::
  "string \<Rightarrow> (string \<Rightarrow> jsval \<Rightarrow> 's \<Rightarrow> 's) \<Rightarrow> (string \<Rightarrow> 's \<Rightarrow> jsval) \<Rightarrow> 's \<Rightarrow> 's" where
  "kenwood_parse resp upd get s =
     (if resp = [] \<or> length resp < 2 then s
      else
        let cmd = substring resp 0 2 in
        if cmd = ''IF'' then
          (if length resp \<ge> 37 then
             let freqStr = substring resp 2 13;
                 s1 = (case parseInt freqStr of
                         Some freq \<Rightarrow> if freq > 0 then upd ''freq'' (JNum freq) s else s
                       | None \<Rightarrow> s);
                 modeDigit = charAt resp 29;
                 mode = (case kenwood_MODES modeDigit of
                           Some m \<Rightarrow> JStr m
                         | None \<Rightarrow> get ''mode'' s1);
                 s2 = upd ''mode'' mode s1;
                 txState = charAt resp 28
             in upd ''ptt'' (JBool (txState \<noteq> ''0'')) s2
           else s)
        else if cmd = ''FA'' then
          (case parseInt (substringFrom resp 2) of
             Some freq \<Rightarrow> if freq > 0 then upd ''freq'' (JNum freq) s else s
           | None \<Rightarrow> s)
        else if cmd = ''MD'' then
          (let modeDigit = charAt resp 2;
               mode = (case kenwood_MODES modeDigit of
                         Some m \<Rightarrow> JStr m
                       | None \<Rightarrow> get ''mode'' s)
           in upd ''mode'' mode s)
        else s)"

section \<open>plugins/usb/protocol-yaesu.js\<close>

definition yaesu_MODES :: "string \<Rightarrow> string option" where
  "yaesu_MODES = map_of
     [(''1'', ''LSB''), (''2'', ''USB''), (''3'', ''CW''), (''4'', ''FM''), (''5'', ''AM''),
      (''6'', ''RTTY-LSB''), (''7'', ''CW-R''), (''8'', ''DATA-LSB''), (''9'', ''RTTY-USB''),
      (''A'', ''DATA-FM''), (''B'', ''FM-N''), (''C'', ''DATA-USB''), (''D'', ''AM-N''),
      (''E'', ''C4FM'')]"

text \<open>The \<^verbatim>\<open>default\<close> branch only writes to the console.\<close>

definition yaesu_parse ::
  "string \<Rightarrow> (string \<Rightarrow> jsval \<Rightarrow> 's \<Rightarrow> 's) \<Rightarrow> (string \<Rightarrow> 's \<Rightarrow> jsval) \<Rightarrow> 's \<Rightarrow> 's" where
  "yaesu_parse resp upd get s =
     (if resp = [] \<or> length resp < 2 then s
      else
        let cmd = substring resp 0 2 in
        if cmd = ''IF'' then
          (if length resp \<ge> 27 then
             let freqStr = substring resp 2 11;
                 s1 = (case parseInt freqStr of
                         Some freq \<Rightarrow> if freq > 0 then upd ''freq'' (JNum freq) s else s
                       | None \<Rightarrow> s);
                 modeDigit = charAt resp 21;
                 mode = (case yaesu_MODES modeDigit of
                           Some m \<Rightarrow> JStr m
                         | None \<Rightarrow> get ''mode'' s1);
                 s2 = upd ''mode'' mode s1
             in if length resp \<ge> 29
                then (let txState = charAt resp 28 in upd ''ptt'' (JBool (txState \<noteq> ''0'')) s2)
                else s2
           else s)
        else if cmd = ''FA'' then
          (case parseInt (substringFrom resp 2) of
             Some freq \<Rightarrow> if freq > 0 then upd ''freq'' (JNum freq) s else s
           | None \<Rightarrow> s)
        else if cmd = ''MD'' then
          (let modeStr = substringFrom resp 2;
               modeDigit = (if length modeStr \<ge> 2 then charAt modeStr 1 else charAt modeStr 0);
               mode = (case yaesu_MODES modeDigit of
                         Some m \<Rightarrow> JStr m
                       | None \<Rightarrow> get ''mode'' s)
           in upd ''mode'' mode s)
        else if cmd = ''TX'' \<or> cmd = ''RX'' then upd ''ptt'' (JBool (cmd = ''TX'')) s
        else s)"

text \<open>
  Modelled from the spec: the \<^verbatim>\<open>getState\<close> callback handed to \<^verbatim>\<open>parse\<close> and
  \<^verbatim>\<open>handleData\<close> by the USB plugin, whose module is not among the sources. The spec
  has the parsers fall back "to the previously known mode", so \<^verbatim>\<open>getState(prop)\<close>
  reads \<^verbatim>\<open>state[prop]\<close> of the shared store.
\<close>

definition getState :: "string \<Rightarrow> store \<Rightarrow> jsval" where
  "getState prop st = state st prop"

text \<open>
  A call \<^verbatim>\<open>parse(resp, updateState, getState)\<close> with an arbitrary first argument.
  A falsy \<open>resp\<close> returns at once. A truthy \<open>resp\<close> that is not a string (a number, a
  boolean, a plain object) has no \<^verbatim>\<open>length\<close>, so the length test is false, and no
  \<^verbatim>\<open>substring\<close>, so calling it throws a \<^verbatim>\<open>TypeError\<close>. These property accesses
  are the only operations of \<^verbatim>\<open>parse\<close> that can throw.
\<close>

datatype 'a result = Returns 'a | Throws string

definition kenwood_parse_call ::
  "jsval \<Rightarrow> (string \<Rightarrow> jsval \<Rightarrow> 's \<Rightarrow> 's) \<Rightarrow> (string \<Rightarrow> 's \<Rightarrow> jsval) \<Rightarrow> 's \<Rightarrow> 's result" where
  "kenwood_parse_call resp upd get s =
     (if \<not> truthy resp then Returns s
      else (case resp of
              JStr str \<Rightarrow> Returns (kenwood_parse str upd get s)
            | _ \<Rightarrow> Throws ''TypeError''))"

definition yaesu_parse_call ::
  "jsval \<Rightarrow> (string \<Rightarrow> jsval \<Rightarrow> 's \<Rightarrow> 's) \<Rightarrow> (string \<Rightarrow> 's \<Rightarrow> jsval) \<Rightarrow> 's \<Rightarrow> 's result" where
  "yaesu_parse_call resp upd get s =
     (if \<not> truthy resp then Returns s
      else (case resp of
              JStr str \<Rightarrow> Returns (yaesu_parse str upd get s)
            | _ \<Rightarrow> Throws ''TypeError''))"

section \<open>plugins/usb/protocol-icom.js: the CI-V binary protocol\<close>

type_synonym byte = "8 word"

definition CONTROLLER :: byte where
  "CONTROLLER = 0xE0"

definition icom_MODES :: "byte \<Rightarrow> string option" where
  "icom_MODES = map_of
     [(0x00, ''LSB''), (0x01, ''USB''), (0x02, ''AM''), (0x03, ''CW''), (0x04, ''RTTY''),
      (0x05, ''FM''), (0x06, ''WFM''), (0x07, ''CW-R''), (0x08, ''RTTY-R''),
      (0x11, ''DATA-LSB''), (0x12, ''DATA-USB''), (0x17, ''DATA-FM'')]"

text \<open>
  \<^verbatim>\<open>bcdToFreq(bytes)\<close>: the loop over \<open>bytes\<close> with its two variables \<open>freq\<close> and
  \<open>mult\<close>. The elements are JavaScript numbers; \<^verbatim>\<open>&\<close> and \<^verbatim>\<open>>>\<close> act on their
  two's complement form.
\<close>

fun bcdToFreq_loop :: "int list \<Rightarrow> int \<Rightarrow> int \<Rightarrow> int" where
  "bcdToFreq_loop [] freq mult = freq"
| "bcdToFreq_loop (b # bytes) freq mult =
     (let lo = b AND 0x0f;
          hi = (drop_bit 4 b) AND 0x0f;
          freq1 = freq + lo * mult;
          mult1 = mult * 10;
          freq2 = freq1 + hi * mult1;
          mult2 = mult1 * 10
      in bcdToFreq_loop bytes freq2 mult2)"

definition bcdToFreq :: "int list \<Rightarrow> int" where
  "bcdToFreq bytes = bcdToFreq_loop bytes 0 1"

text \<open>
  \<^verbatim>\<open>freqToBCD(freq)\<close> for an integer \<open>freq\<close> (\<^verbatim>\<open>Math.round\<close> leaves it as it is):
  five rounds of the loop body. \<^verbatim>\<open>%\<close> takes the sign of the dividend (\<open>smod\<close>),
  \<^verbatim>\<open>Math.floor(f / 10)\<close> rounds down (\<open>div\<close>).
\<close>

fun freqToBCD_loop :: "nat \<Rightarrow> int \<Rightarrow> int list" where
  "freqToBCD_loop 0 f = []"
| "freqToBCD_loop (Suc n) f =
     (let lo = f smod 10;
          f1 = f div 10;
          hi = f1 smod 10;
          f2 = f1 div 10
      in (push_bit 4 hi OR lo) # freqToBCD_loop n f2)"

definition freqToBCD :: "int \<Rightarrow> int list" where
  "freqToBCD freq = freqToBCD_loop 5 freq"

text \<open>\<^verbatim>\<open>buf.indexOf(value, byteOffset)\<close> on a Buffer; \<open>None\<close> is \<open>-1\<close>.\<close>

fun indexOf0 :: "byte list \<Rightarrow> byte \<Rightarrow> nat option" where
  "indexOf0 [] v = None"
| "indexOf0 (x # xs) v = (if x = v then Some 0 else map_option Suc (indexOf0 xs v))"

definition indexOf :: "byte list \<Rightarrow> byte \<Rightarrow> nat \<Rightarrow> nat option" where
  "indexOf buf v byteOffset = map_option (\<lambda>k. byteOffset + k) (indexOf0 (drop byteOffset buf) v)"

lemma indexOf0_bound: "indexOf0 xs v = Some k \<Longrightarrow> k < length xs"
  by (induction xs arbitrary: k) (auto split: if_splits)

lemma indexOf_bound: "indexOf buf v off = Some k \<Longrightarrow> off \<le> k \<and> k < length buf"
  by (auto simp: indexOf_def dest!: indexOf0_bound)

text \<open>
  The body of the loop of \<^verbatim>\<open>handleData\<close> from the length check on, for one frame
  sliced out of the buffer: every \<^verbatim>\<open>continue\<close> returns the state as it is. The
  \<open>0xfb\<close> case does nothing and the \<open>0xfa\<close> case writes a console warning.
\<close>

definition processFrame ::
  "(string \<Rightarrow> jsval \<Rightarrow> 's \<Rightarrow> 's) \<Rightarrow> (string \<Rightarrow> 's \<Rightarrow> jsval) \<Rightarrow> byte list \<Rightarrow> 's \<Rightarrow> 's" where
  "processFrame upd get frame s =
     (if length frame < 6 then s
      else if frame ! 0 \<noteq> 0xFE \<or> frame ! 1 \<noteq> 0xFE then s
      else
        let to = frame ! 2; cmd = frame ! 4 in
        if to \<noteq> CONTROLLER then s
        else if cmd = 0x03 \<or> cmd = 0x00 then
          (if length frame \<ge> 10 then
             let freq = bcdToFreq (map uint (take (10 - 5) (drop 5 frame))) in
             if freq > 0 then upd ''freq'' (JNum freq) s else s
           else s)
        else if cmd = 0x04 \<or> cmd = 0x01 then
          (if length frame \<ge> 7 then
             let mode = (case icom_MODES (frame ! 5) of
                           Some m \<Rightarrow> JStr m
                         | None \<Rightarrow> get ''mode'' s);
                 s1 = upd ''mode'' mode s
             in if length frame \<ge> 8 then upd ''width'' (JNum (uint (frame ! 6))) s1 else s1
           else s)
        else s)"

text \<open>
  The \<^verbatim>\<open>while (true)\<close> loop of \<^verbatim>\<open>handleData\<close> on the accumulated buffer; \<open>h\<close> is
  what the body does with a sliced-out frame. A round that finds a frame shortens the
  buffer, so the loop ends.
\<close>

function reframe :: "(byte list \<Rightarrow> 's \<Rightarrow> 's) \<Rightarrow> byte list \<Rightarrow> 's \<Rightarrow> byte list \<times> 's" where
  "reframe h buf s =
     (case indexOf buf 0xFE 0 of
        None \<Rightarrow> ([], s)
      | Some start \<Rightarrow>
          let buf1 = (if start > 0 then drop start buf else buf) in
          (case indexOf buf1 0xFD 2 of
             None \<Rightarrow> (buf1, s)
           | Some end \<Rightarrow>
               let frame = take (end + 1) buf1;
                   buf2 = drop (end + 1) buf1
               in reframe h buf2 (h frame s)))"
  by pat_completeness auto
termination
proof (relation "measure (\<lambda>(h, buf, s). length buf)")
  show "wf (measure (\<lambda>(h, buf, s). length buf))" by simp
next
  fix h :: "byte list \<Rightarrow> 's \<Rightarrow> 's" and buf :: "byte list" and s :: 's
    and start buf1 e frame buf2
  assume "indexOf buf 0xFE 0 = Some start"
    and b1: "buf1 = (if 0 < start then drop start buf else buf)"
    and e: "indexOf buf1 0xFD 2 = Some e"
    and "frame = take (e + 1) buf1"
    and b2: "buf2 = drop (e + 1) buf1"
  from e have "e < length buf1" by (simp add: indexOf_bound)
  moreover have "length buf1 \<le> length buf" by (simp add: b1)
  ultimately show "((h, buf2, h frame s), (h, buf, s)) \<in> measure (\<lambda>(h, buf, s). length buf)"
    by (simp add: b2)
qed

declare reframe.simps [simp del]

text \<open>\<^verbatim>\<open>handleData(data, rxBuf, updateState, getState)\<close>; the result is the returned buffer
  and the state the callbacks leave.\<close>

definition handleData ::
  "byte list \<Rightarrow> byte list \<Rightarrow> (string \<Rightarrow> jsval \<Rightarrow> 's \<Rightarrow> 's) \<Rightarrow> (string \<Rightarrow> 's \<Rightarrow> jsval) \<Rightarrow> 's
     \<Rightarrow> byte list \<times> 's" where
  "handleData data rxBuf upd get s = reframe (processFrame upd get) (rxBuf @ data) s"

text \<open>
  The caller's use of the reframer on a stream that arrives in chunks: each call gets
  the buffer the previous call returned.
\<close>

fun feed :: "(byte list \<Rightarrow> 's \<Rightarrow> 's) \<Rightarrow> byte list list \<Rightarrow> byte list \<times> 's \<Rightarrow> byte list \<times> 's" where
  "feed h [] acc = acc"
| "feed h (data # chunks) acc = feed h chunks (reframe h (fst acc @ data) (snd acc))"

fun feedChunks ::
  "(string \<Rightarrow> jsval \<Rightarrow> 's \<Rightarrow> 's) \<Rightarrow> (string \<Rightarrow> 's \<Rightarrow> jsval) \<Rightarrow> byte list list \<Rightarrow> byte list \<times> 's
     \<Rightarrow> byte list \<times> 's" where
  "feedChunks upd get [] acc = acc"
| "feedChunks upd get (data # chunks) acc =
     feedChunks upd get chunks (handleData data (fst acc) upd get (snd acc))"

text \<open>A handler that keeps the frames the loop slices out, in order.\<close>

definition recordFrame :: "byte list \<Rightarrow> byte list list \<Rightarrow> byte list list" where
  "recordFrame frame frames = frames @ [frame]"

text \<open>
  A frame as one round of the loop slices it out of a buffer that holds it first: it
  starts with the start sentinel, and its last byte is the first end sentinel at
  index 2 or later.
\<close>

definition slicedFrame :: "byte list \<Rightarrow> bool" where
  "slicedFrame frame \<longleftrightarrow>
     indexOf frame 0xFE 0 = Some 0 \<and> indexOf frame 0xFD 2 = Some (length frame - 1)"

text \<open>A callback that only records the calls made to \<^verbatim>\<open>updateState\<close>.\<close>

definition logCall :: "string \<Rightarrow> jsval \<Rightarrow> (string \<times> jsval) list \<Rightarrow> (string \<times> jsval) list" where
  "logCall prop v calls = calls @ [(prop, v)]"

section \<open>core/plugin-registry.js: the plugin registry\<close>

text \<open>
  A JavaScript call either returns a value or throws; both can have changed the world
  \<open>'w\<close> the callee acts on, so the world after the call comes with the result.
\<close>

text \<open>
  A plugin instance is an object; \<open>props\<close> are its properties that are functions (its
  methods, own or inherited), looked up by name. \<open>inst_id\<close> is the object's identity.
\<close>

record 'w plugin_instance =
  inst_id :: nat
  props :: "string \<rightharpoonup> (jsval list \<Rightarrow> 'w \<Rightarrow> unit result \<times> 'w)"

text \<open>
  The calls that reach plugin code, in the order they are made: a method of an
  instance (by the instance's identity), or the factory of the descriptor registered
  under an id.
\<close>

datatype call_event = Invoke nat string "jsval list" | Create string

text \<open>
  \<^verbatim>\<open>inst.m(...args)\<close>. When \<open>m\<close> is not a function of the instance the call throws a
  \<^verbatim>\<open>TypeError\<close> and nothing of the plugin runs; otherwise the function runs once, on
  the current world, and that is the one call made.
\<close>

definition call_method ::
  "'w plugin_instance \<Rightarrow> string \<Rightarrow> jsval list \<Rightarrow> 'w \<Rightarrow> unit result \<times> 'w \<times> call_event list" where
  "call_method inst m args w =
     (case props inst m of
        None \<Rightarrow> (Throws ''TypeError'', w, [])
      | Some f \<Rightarrow> (case f args w of (res, w') \<Rightarrow> (res, w', [Invoke (inst_id inst) m args])))"

text \<open>
  A plugin descriptor; \<open>create\<close> is the factory \<^verbatim>\<open>create(config, services)\<close> with the
  registry's configuration and services as its arguments.
\<close>

record 'w descriptor =
  desc_name :: string
  category :: string
  configKey :: string
  create :: "'w \<Rightarrow> 'w plugin_instance result \<times> 'w"

text \<open>
  The fields of \<^verbatim>\<open>PluginRegistry\<close> that the rig commands use: \<^verbatim>\<open>_descriptors\<close>,
  \<^verbatim>\<open>_instance\<close> (\<open>None\<close> is \<^verbatim>\<open>null\<close>) and \<^verbatim>\<open>_activeId\<close>.
\<close>

record 'w registry =
  descriptors :: "string \<rightharpoonup> 'w descriptor"
  rig_instance :: "'w plugin_instance option"
  activeId :: "string option"

text \<open>
  \<^verbatim>\<open>switchPlugin(id)\<close>; an \<open>id\<close> that is \<^verbatim>\<open>undefined\<close>, \<^verbatim>\<open>null\<close> or empty is the
  empty string. The result is the registry, the world, and the calls made. Both
  \<^verbatim>\<open>try\<close> blocks catch whatever the plugin throws; the second one then clears
  \<^verbatim>\<open>_instance\<close> and \<^verbatim>\<open>_activeId\<close>.
\<close>

definition switchPlugin ::
  "string \<Rightarrow> 'w registry \<Rightarrow> 'w \<Rightarrow> 'w registry \<times> 'w \<times> call_event list" where
  "switchPlugin ident r w =
     (let (r1, w1, t1) =
            (case rig_instance r of
               Some old \<Rightarrow>
                 (case call_method old ''disconnect'' [] w of
                    (res, w', t) \<Rightarrow> (r\<lparr>rig_instance := None, activeId := None\<rparr>, w', t))
             | None \<Rightarrow> (r, w, []))
      in if ident = [] \<or> ident = ''none'' then (r1, w1, t1)
         else
           (case descriptors r1 ident of
              None \<Rightarrow> (r1, w1, t1)
            | Some d \<Rightarrow>
                (case create d w1 of
                   (Throws e, w2) \<Rightarrow>
                     (r1\<lparr>rig_instance := None, activeId := None\<rparr>, w2, t1 @ [Create ident])
                 | (Returns inst, w2) \<Rightarrow>
                     (case call_method inst ''connect'' [] w2 of
                        (Throws e, w3, t3) \<Rightarrow>
                          (r1\<lparr>rig_instance := None, activeId := None\<rparr>, w3,
                           t1 @ [Create ident] @ t3)
                      | (Returns u, w3, t3) \<Rightarrow>
                          (r1\<lparr>rig_instance := Some inst, activeId := Some ident\<rparr>, w3,
                           t1 @ [Create ident] @ t3)))))"

text \<open>
  \<^verbatim>\<open>dispatch(method, ...args)\<close>: the returned boolean, or the exception of the
  method, which \<^verbatim>\<open>dispatch\<close> does not catch.
\<close>

definition dispatch ::
  "string \<Rightarrow> jsval list \<Rightarrow> 'w registry \<Rightarrow> 'w \<Rightarrow> bool result \<times> 'w \<times> call_event list" where
  "dispatch method args r w =
     (case rig_instance r of
        None \<Rightarrow> (Returns False, w, [])
      | Some inst \<Rightarrow>
          (case props inst method of
             None \<Rightarrow> (Returns False, w, [])
           | Some f \<Rightarrow>
               (case f args w of
                  (Throws e, w') \<Rightarrow> (Throws e, w', [Invoke (inst_id inst) method args])
                | (Returns u, w') \<Rightarrow> (Returns True, w', [Invoke (inst_id inst) method args]))))"

definition is_disconnect :: "call_event \<Rightarrow> bool" where
  "is_disconnect c = (case c of Invoke i m args \<Rightarrow> m = ''disconnect'' | Create d \<Rightarrow> False)"

section \<open>core/server.js: the PTT route\<close>

datatype json_body = ErrorBody string | SuccessBody

record response =
  status :: nat
  body :: json_body

text \<open>
  The handler of \<^verbatim>\<open>POST /ptt\<close>: \<open>ptt\<close> is the \<^verbatim>\<open>ptt\<close> property of the request body
  (\<open>JUndefined\<close> when it has none), \<open>pttEnabled\<close> is \<^verbatim>\<open>config.radio.pttEnabled\<close>.
  \<^verbatim>\<open>res.json\<close> answers with status 200 unless \<^verbatim>\<open>res.status\<close> has set another one.
\<close>

definition post_ptt ::
  "jsval \<Rightarrow> jsval \<Rightarrow> 'w registry \<Rightarrow> 'w \<Rightarrow> response result \<times> 'w \<times> call_event list" where
  "post_ptt ptt pttEnabled r w =
     (if truthy ptt \<and> \<not> truthy pttEnabled
      then (Returns \<lparr>status = 403, body = ErrorBody ''PTT disabled in configuration''\<rparr>, w, [])
      else
        (case dispatch ''setPTT'' [JBool (truthy ptt)] r w of
           (Throws e, w', t) \<Rightarrow> (Throws e, w', t)
         | (Returns b, w', t) \<Rightarrow> (Returns \<lparr>status = 200, body = SuccessBody\<rparr>, w', t)))"

section \<open>plugins/flrig.js: the flrig plugin\<close>

text \<open>
  The world the flrig plugin acts on: the shared store, the clock that \<^verbatim>\<open>Date.now()\<close>
  reads, whether \<^verbatim>\<open>require('xmlrpc')\<close> succeeds, the closure variables \<open>client\<close> and
  \<open>pollTimer\<close> of every instance created so far (\<open>True\<close>: not \<^verbatim>\<open>null\<close>), the number of
  instances created, and the XML-RPC calls sent. The timer's polling callback runs
  later, from the event loop, and is not part of any call modelled here.
\<close>

record flrig_vars =
  client :: bool
  pollTimer :: bool

datatype rpc_arg = RpcVal jsval | RpcFreqPlusTenth jsval

record world =
  rig_store :: store
  clock :: int
  xmlrpc_available :: bool
  closures :: "nat \<Rightarrow> flrig_vars"
  created :: nat
  rpc_calls :: "(string \<times> rpc_arg list) list"

text \<open>The service \<^verbatim>\<open>updateState\<close> handed to \<^verbatim>\<open>create\<close>: \<^verbatim>\<open>updateState\<close> of the store.\<close>

definition service_updateState :: "string \<Rightarrow> jsval \<Rightarrow> world \<Rightarrow> world" where
  "service_updateState prop v w = w\<lparr>rig_store := updateState (clock w) prop v (rig_store w)\<rparr>"

definition arg0 :: "jsval list \<Rightarrow> jsval" where
  "arg0 args = (case args of [] \<Rightarrow> JUndefined | a # _ \<Rightarrow> a)"

definition flrig_stopPolling :: "nat \<Rightarrow> world \<Rightarrow> world" where
  "flrig_stopPolling i w =
     (if pollTimer (closures w i)
      then w\<lparr>closures := (closures w)(i := (closures w i)\<lparr>pollTimer := False\<rparr>)\<rparr>
      else w)"

definition flrig_startPolling :: "nat \<Rightarrow> world \<Rightarrow> world" where
  "flrig_startPolling i w =
     (let w1 = flrig_stopPolling i w
      in w1\<lparr>closures := (closures w1)(i := (closures w1 i)\<lparr>pollTimer := True\<rparr>)\<rparr>)"

text \<open>\<^verbatim>\<open>connect()\<close>: when \<^verbatim>\<open>require('xmlrpc')\<close> throws, the \<^verbatim>\<open>catch\<close> only logs.\<close>

definition flrig_connect :: "nat \<Rightarrow> jsval list \<Rightarrow> world \<Rightarrow> unit result \<times> world" where
  "flrig_connect i args w =
     (if xmlrpc_available w
      then
        (let w1 = w\<lparr>closures := (closures w)(i := (closures w i)\<lparr>client := True\<rparr>)\<rparr>;
             w2 = service_updateState ''connected'' (JBool True) w1
         in (Returns (), flrig_startPolling i w2))
      else (Returns (), w))"

definition flrig_disconnect :: "nat \<Rightarrow> jsval list \<Rightarrow> world \<Rightarrow> unit result \<times> world" where
  "flrig_disconnect i args w =
     (let w1 = flrig_stopPolling i w;
          w2 = w1\<lparr>closures := (closures w1)(i := (closures w1 i)\<lparr>client := False\<rparr>)\<rparr>
      in (Returns (), service_updateState ''connected'' (JBool False) w2))"

definition flrig_setFreq :: "nat \<Rightarrow> jsval list \<Rightarrow> world \<Rightarrow> unit result \<times> world" where
  "flrig_setFreq i args w =
     (if client (closures w i)
      then (Returns (), w\<lparr>rpc_calls := rpc_calls w @ [(''rig.set_frequency'', [RpcFreqPlusTenth (arg0 args)])]\<rparr>)
      else (Returns (), w))"

definition flrig_setMode :: "nat \<Rightarrow> jsval list \<Rightarrow> world \<Rightarrow> unit result \<times> world" where
  "flrig_setMode i args w =
     (if client (closures w i)
      then (Returns (), w\<lparr>rpc_calls := rpc_calls w @ [(''rig.set_mode'', [RpcVal (arg0 args)])]\<rparr>)
      else (Returns (), w))"

definition flrig_setPTT :: "nat \<Rightarrow> jsval list \<Rightarrow> world \<Rightarrow> unit result \<times> world" where
  "flrig_setPTT i args w =
     (if client (closures w i)
      then (Returns (), w\<lparr>rpc_calls := rpc_calls w @
              [(''rig.set_ptt'', [RpcVal (JNum (if truthy (arg0 args) then 1 else 0))])]\<rparr>)
      else (Returns (), w))"

text \<open>
  The object \<^verbatim>\<open>create\<close> returns for the instance with closure number \<open>i\<close>, with
  the five methods the plugin defines.
\<close>

definition flrig_instance :: "nat \<Rightarrow> world plugin_instance" where
  "flrig_instance i =
     \<lparr>inst_id = i,
      props = map_of
        [(''connect'', flrig_connect i), (''disconnect'', flrig_disconnect i),
         (''setFreq'', flrig_setFreq i), (''setMode'', flrig_setMode i),
         (''setPTT'', flrig_setPTT i)]\<rparr>"

definition flrig_create :: "world \<Rightarrow> world plugin_instance result \<times> world" where
  "flrig_create w =
     (let i = created w
      in (Returns (flrig_instance i),
          w\<lparr>closures := (closures w)(i := \<lparr>client = False, pollTimer = False\<rparr>),
            created := i + 1\<rparr>))"

definition flrig :: "world descriptor" where
  "flrig = \<lparr>desc_name = ''flrig (XML-RPC)'', category = ''rig'', configKey = ''radio'',
            create = flrig_create\<rparr>"

section \<open>Example worlds\<close>

text \<open>
  A world in which flrig instance 0 is connected and the rig is tuned to 14.074 MHz in
  USB, and a registry that holds flrig instance 0.
\<close>

definition tuned_world :: world where
  "tuned_world =
     \<lparr>rig_store = \<lparr>state = initial_state(''connected'' := JBool True, ''freq'' := JNum 14074000,
                                         ''mode'' := JStr ''USB'', ''width'' := JNum 2800),
                   sseClients = [(1, [])]\<rparr>,
      clock = 1000,
      xmlrpc_available = True,
      closures = (\<lambda>i. \<lparr>client = True, pollTimer = True\<rparr>),
      created = 1,
      rpc_calls = []\<rparr>"

definition flrig_registry :: "world registry" where
  "flrig_registry =
     \<lparr>descriptors = [''flrig'' \<mapsto> flrig],
      rig_instance = Some (flrig_instance 0),
      activeId = Some ''flrig''\<rparr>"

text \<open>
  A rig plugin as \<^verbatim>\<open>register(descriptor)\<close> accepts it, whose code writes every call
  it receives into a journal: the world is that journal and the number of instances
  made. With \<open>connect_throws\<close> its \<^verbatim>\<open>connect()\<close> throws after noting the call. The
  registry \<open>probe_registry\<close> knows the throwing variant as \<open>faulty\<close> and the other as
  \<open>steady\<close>, and holds no instance.
\<close>

record probe_world =
  journal :: "(nat \<times> string) list"
  made :: nat

definition probe_connect :: "nat \<Rightarrow> bool \<Rightarrow> jsval list \<Rightarrow> probe_world \<Rightarrow> unit result \<times> probe_world" where
  "probe_connect i connect_throws args w =
     (if connect_throws then Throws ''connect failed'' else Returns (),
      w\<lparr>journal := journal w @ [(i, ''connect'')]\<rparr>)"

definition probe_disconnect :: "nat \<Rightarrow> jsval list \<Rightarrow> probe_world \<Rightarrow> unit result \<times> probe_world" where
  "probe_disconnect i args w = (Returns (), w\<lparr>journal := journal w @ [(i, ''disconnect'')]\<rparr>)"

definition probe_instance :: "nat \<Rightarrow> bool \<Rightarrow> probe_world plugin_instance" where
  "probe_instance i connect_throws =
     \<lparr>inst_id = i,
      props = map_of [(''connect'', probe_connect i connect_throws),
                      (''disconnect'', probe_disconnect i)]\<rparr>"

definition probe_create :: "bool \<Rightarrow> probe_world \<Rightarrow> probe_world plugin_instance result \<times> probe_world" where
  "probe_create connect_throws w =
     (Returns (probe_instance (made w) connect_throws),
      w\<lparr>journal := journal w @ [(made w, ''create'')], made := made w + 1\<rparr>)"

definition probe_plugin :: "bool \<Rightarrow> probe_world descriptor" where
  "probe_plugin connect_throws =
     \<lparr>desc_name = ''probe'', category = ''rig'', configKey = ''radio'',
      create = probe_create connect_throws\<rparr>"

definition probe_registry :: "probe_world registry" where
  "probe_registry =
     \<lparr>descriptors = [''faulty'' \<mapsto> probe_plugin True, ''steady'' \<mapsto> probe_plugin False],
      rig_instance = None,
      activeId = None\<rparr>"

section \<open>Properties of the state store\<close>

lemma state_broadcast: "state (broadcast e st) = state st"
  by (simp add: broadcast_def)

lemma sseClients_broadcast:
  "sseClients (broadcast e st) = map (\<lambda>(cid, res). (cid, res @ [e])) (sseClients st)"
  by (simp add: broadcast_def)

lemma strict_neq_iff: "strict_neq a b \<longleftrightarrow> a \<noteq> b \<or> b = JNaN"
  by (auto simp: strict_neq_def)

lemma updateState_same: "state st p = v \<Longrightarrow> v \<noteq> JNaN \<Longrightarrow> updateState now p v st = st"
  by (simp add: updateState_def strict_neq_iff)

lemma state_updateState:
  "state (updateState now p v st) =
     (if state st p \<noteq> v \<or> v = JNaN then ((state st)(p := v))(''lastUpdate'' := JNum now)
      else state st)"
  by (simp add: updateState_def state_broadcast strict_neq_iff)

lemma sseClients_updateState:
  "sseClients (updateState now p v st) =
     (if state st p \<noteq> v \<or> v = JNaN
      then map (\<lambda>(cid, res). (cid, res @ [Update p v])) (sseClients st)
      else sseClients st)"
  by (simp add: updateState_def sseClients_broadcast strict_neq_iff)

text \<open>
  C3, as the code has it. \<^verbatim>\<open>updateState(p, v)\<close> compares with \<^verbatim>\<open>!==\<close>. When \<open>v\<close> is
  the value stored under \<open>p\<close> and is not \<^verbatim>\<open>NaN\<close>, the store (state and every
  client's stream) is unchanged, so nothing is emitted. When \<open>v\<close> differs from the
  stored value, or is \<^verbatim>\<open>NaN\<close>, the new state is the old one with \<open>v\<close> written to
  \<open>p\<close> and then the current time written to \<open>lastUpdate\<close>; every client receives
  exactly one more message, the update event carrying \<open>p\<close> and \<open>v\<close>; every field
  other than \<open>p\<close> and \<open>lastUpdate\<close> keeps its value.
\<close>

theorem updateState_spec:
  "(state st p = v \<and> v \<noteq> JNaN \<longrightarrow> updateState now p v st = st) \<and>
   (state st p \<noteq> v \<or> v = JNaN \<longrightarrow>
      state (updateState now p v st) = ((state st)(p := v))(''lastUpdate'' := JNum now) \<and>
      state (updateState now p v st) ''lastUpdate'' = JNum now \<and>
      sseClients (updateState now p v st) =
        map (\<lambda>(cid, res). (cid, res @ [Update p v])) (sseClients st) \<and>
      (\<forall>q. q \<noteq> p \<and> q \<noteq> ''lastUpdate'' \<longrightarrow> state (updateState now p v st) q = state st q))"
proof (intro conjI impI)
  assume "state st p = v \<and> v \<noteq> JNaN"
  then show "updateState now p v st = st" by (simp add: updateState_same)
next
  assume d: "state st p \<noteq> v \<or> v = JNaN"
  then show "state (updateState now p v st) = ((state st)(p := v))(''lastUpdate'' := JNum now)"
    by (simp add: state_updateState)
  then show "state (updateState now p v st) ''lastUpdate'' = JNum now"
    and "\<forall>q. q \<noteq> p \<and> q \<noteq> ''lastUpdate'' \<longrightarrow> state (updateState now p v st) q = state st q"
    by simp_all
  from d show "sseClients (updateState now p v st) =
        map (\<lambda>(cid, res). (cid, res @ [Update p v])) (sseClients st)"
    by (simp add: sseClients_updateState)
qed

theorem updateState_spec_witness:
  "state \<lparr>state = initial_state, sseClients = [(1, [])]\<rparr> ''freq'' \<noteq> JNum 14074000 \<and>
   state (updateState 1000 ''freq'' (JNum 14074000) \<lparr>state = initial_state, sseClients = [(1, [])]\<rparr>)
     ''freq'' = JNum 14074000 \<and>
   state (updateState 1000 ''freq'' (JNum 14074000) \<lparr>state = initial_state, sseClients = [(1, [])]\<rparr>)
     ''lastUpdate'' = JNum 1000 \<and>
   state (updateState 1000 ''freq'' (JNum 14074000) \<lparr>state = initial_state, sseClients = [(1, [])]\<rparr>)
     ''mode'' = JStr [] \<and>
   sseClients (updateState 1000 ''freq'' (JNum 14074000) \<lparr>state = initial_state, sseClients = [(1, [])]\<rparr>)
     = [(1, [Update ''freq'' (JNum 14074000)])] \<and>
   state \<lparr>state = initial_state, sseClients = [(1, [])]\<rparr> ''ptt'' = JBool False \<and>
   updateState 1000 ''ptt'' (JBool False) \<lparr>state = initial_state, sseClients = [(1, [])]\<rparr>
     = \<lparr>state = initial_state, sseClients = [(1, [])]\<rparr> \<and>
   sseClients (updateState 1000 ''freq'' JNaN
       \<lparr>state = initial_state(''freq'' := JNaN), sseClients = [(1, [])]\<rparr>)
     = [(1, [Update ''freq'' JNaN])]"
  using updateState_spec [of "\<lparr>state = initial_state, sseClients = [(1, [])]\<rparr>" "''freq''"
          "JNum 14074000" 1000]
        updateState_spec [of "\<lparr>state = initial_state, sseClients = [(1, [])]\<rparr>" "''ptt''"
          "JBool False" 1000]
        updateState_spec [of "\<lparr>state = initial_state(''freq'' := JNaN), sseClients = [(1, [])]\<rparr>"
          "''freq''" JNaN 1000]
  by (simp add: initial_state_def)

text \<open>
  C3 as stated fails at \<^verbatim>\<open>NaN\<close>: the value the store reaches with
  \<^verbatim>\<open>updateState('freq', NaN)\<close> holds \<^verbatim>\<open>NaN\<close> under \<open>freq\<close>, and the same call again
  still changes the store: it refreshes \<open>lastUpdate\<close> and sends a second event.
\<close>

theorem updateState_NaN_not_idempotent:
  "state (updateState 1000 ''freq'' JNaN \<lparr>state = initial_state, sseClients = [(1, [])]\<rparr>) ''freq''
     = JNaN \<and>
   updateState 2000 ''freq'' JNaN
       (updateState 1000 ''freq'' JNaN \<lparr>state = initial_state, sseClients = [(1, [])]\<rparr>)
     \<noteq> updateState 1000 ''freq'' JNaN \<lparr>state = initial_state, sseClients = [(1, [])]\<rparr> \<and>
   state (updateState 2000 ''freq'' JNaN
       (updateState 1000 ''freq'' JNaN \<lparr>state = initial_state, sseClients = [(1, [])]\<rparr>))
     ''lastUpdate'' = JNum 2000 \<and>
   sseClients (updateState 2000 ''freq'' JNaN
       (updateState 1000 ''freq'' JNaN \<lparr>state = initial_state, sseClients = [(1, [])]\<rparr>))
     = [(1, [Update ''freq'' JNaN, Update ''freq'' JNaN])]"
proof -
  let ?st0 = "\<lparr>state = initial_state, sseClients = [(1, [])]\<rparr>"
  let ?st1 = "updateState 1000 ''freq'' JNaN ?st0"
  let ?st2 = "updateState 2000 ''freq'' JNaN ?st1"
  have f: "state ?st1 ''freq'' = JNaN"
    by (simp add: state_updateState)
  have c1: "sseClients ?st1 = [(1, [Update ''freq'' JNaN])]"
    by (simp add: sseClients_updateState)
  have c2: "sseClients ?st2 = [(1, [Update ''freq'' JNaN, Update ''freq'' JNaN])]"
    by (simp add: sseClients_updateState c1)
  have l: "state ?st2 ''lastUpdate'' = JNum 2000"
    by (simp add: state_updateState)
  have "sseClients ?st2 \<noteq> sseClients ?st1"
    unfolding c1 c2 by simp
  then have n: "?st2 \<noteq> ?st1" by metis
  show ?thesis using f n l c2 by (intro conjI)
qed

section \<open>Properties of the ASCII parsers\<close>

lemma state_updateState_at:
  "q \<noteq> ''lastUpdate'' \<Longrightarrow> state (updateState now p v st) q = (if q = p then v else state st q)"
  by (auto simp: state_updateState)

lemma isDigit_not_white: "isDigit c \<Longrightarrow> \<not> isWhiteSpace c"
  by (auto simp: isDigit_def isWhiteSpace_def)

lemma isDigit_not_sign: "isDigit c \<Longrightarrow> c \<noteq> CHR ''-'' \<and> c \<noteq> CHR ''+''"
  by (auto simp: isDigit_def)

lemma parseInt_digits:
  assumes "ds \<noteq> []" and "list_all isDigit ds"
  shows "parseInt ds = Some (decimalValue ds)"
proof -
  obtain c r where ds: "ds = c # r" using assms(1) by (cases ds) auto
  have c: "isDigit c" using assms(2) ds by simp
  have tw: "takeWhile isDigit ds = ds"
    using assms(2) by (simp add: list_all_iff)
  have dw: "dropWhile isWhiteSpace ds = ds"
    using c ds by (simp add: isDigit_not_white)
  show ?thesis
    unfolding parseInt_def dw
    using isDigit_not_sign [OF c] tw ds by (simp add: Let_def)
qed

lemma kenwood_parse_IF:
  assumes "length resp \<ge> 37" and "substring resp 0 2 = ''IF''"
  shows "kenwood_parse resp upd get s =
     (let s1 = (case parseInt (substring resp 2 13) of
                  Some freq \<Rightarrow> if freq > 0 then upd ''freq'' (JNum freq) s else s
                | None \<Rightarrow> s);
          s2 = upd ''mode'' (case kenwood_MODES [resp ! 29] of
                               Some m \<Rightarrow> JStr m | None \<Rightarrow> get ''mode'' s1) s1
      in upd ''ptt'' (JBool (resp ! 28 \<noteq> CHR ''0'')) s2)"
  using assms by (auto simp: kenwood_parse_def charAt_def Let_def)

lemma yaesu_parse_IF:
  assumes "length resp \<ge> 29" and "substring resp 0 2 = ''IF''"
  shows "yaesu_parse resp upd get s =
     (let s1 = (case parseInt (substring resp 2 11) of
                  Some freq \<Rightarrow> if freq > 0 then upd ''freq'' (JNum freq) s else s
                | None \<Rightarrow> s);
          s2 = upd ''mode'' (case yaesu_MODES [resp ! 21] of
                               Some m \<Rightarrow> JStr m | None \<Rightarrow> get ''mode'' s1) s1
      in upd ''ptt'' (JBool (resp ! 28 \<noteq> CHR ''0'')) s2)"
  using assms by (auto simp: yaesu_parse_def charAt_def Let_def)

lemma yaesu_parse_IF_short:
  assumes "length resp \<ge> 27" and "length resp < 29" and "substring resp 0 2 = ''IF''"
  shows "yaesu_parse resp upd get s =
     (let s1 = (case parseInt (substring resp 2 11) of
                  Some freq \<Rightarrow> if freq > 0 then upd ''freq'' (JNum freq) s else s
                | None \<Rightarrow> s)
      in upd ''mode'' (case yaesu_MODES [resp ! 21] of
                         Some m \<Rightarrow> JStr m | None \<Rightarrow> get ''mode'' s1) s1)"
  using assms by (auto simp: yaesu_parse_def charAt_def Let_def)

lemma substring_nonempty: "b \<le> length s \<Longrightarrow> a < b \<Longrightarrow> substring s a b \<noteq> []"
  by (simp add: substring_def)

text \<open>
  C4. A composite-status reply: prefix \<open>IF\<close>, long enough to hold every positional
  field (the TX character at index 28, the Kenwood mode character at 29), with decimal
  digits in the frequency field (Kenwood: indices 2 to 12, Yaesu: 2 to 10). Parsing it
  into the shared store sets \<open>freq\<close> to the number the digits denote when that is
  positive (and keeps it otherwise), sets \<open>mode\<close> to the table entry of the mode
  character (Kenwood: index 29, Yaesu: index 21) or keeps the known mode when the
  table has no entry, and sets \<open>ptt\<close> to whether the TX character differs from \<open>0\<close>.
  The Yaesu parser also accepts \<open>IF\<close> lines of 27 or 28 characters, which end before
  the TX character: it sets \<open>freq\<close> and \<open>mode\<close> from them and leaves \<open>ptt\<close> as it is.
  The witness is the line for 14074000 Hz, mode code 2 (USB), TX character 0, parsed
  into a store that was transmitting in LSB.
\<close>

theorem parse_IF_composite_status:
  "(length resp \<ge> 37 \<and> substring resp 0 2 = ''IF'' \<and> list_all isDigit (substring resp 2 13) \<longrightarrow>
      state (kenwood_parse resp (updateState now) getState st) ''freq'' =
        (if decimalValue (substring resp 2 13) > 0 then JNum (decimalValue (substring resp 2 13))
         else state st ''freq'') \<and>
      state (kenwood_parse resp (updateState now) getState st) ''mode'' =
        (case kenwood_MODES [resp ! 29] of Some m \<Rightarrow> JStr m | None \<Rightarrow> state st ''mode'') \<and>
      state (kenwood_parse resp (updateState now) getState st) ''ptt'' =
        JBool (resp ! 28 \<noteq> CHR ''0'')) \<and>
   (length resp \<ge> 29 \<and> substring resp 0 2 = ''IF'' \<and> list_all isDigit (substring resp 2 11) \<longrightarrow>
      state (yaesu_parse resp (updateState now) getState st) ''freq'' =
        (if decimalValue (substring resp 2 11) > 0 then JNum (decimalValue (substring resp 2 11))
         else state st ''freq'') \<and>
      state (yaesu_parse resp (updateState now) getState st) ''mode'' =
        (case yaesu_MODES [resp ! 21] of Some m \<Rightarrow> JStr m | None \<Rightarrow> state st ''mode'') \<and>
      state (yaesu_parse resp (updateState now) getState st) ''ptt'' =
        JBool (resp ! 28 \<noteq> CHR ''0'')) \<and>
   (length resp \<ge> 27 \<and> length resp < 29 \<and> substring resp 0 2 = ''IF'' \<and>
    list_all isDigit (substring resp 2 11) \<longrightarrow>
      state (yaesu_parse resp (updateState now) getState st) ''freq'' =
        (if decimalValue (substring resp 2 11) > 0 then JNum (decimalValue (substring resp 2 11))
         else state st ''freq'') \<and>
      state (yaesu_parse resp (updateState now) getState st) ''mode'' =
        (case yaesu_MODES [resp ! 21] of Some m \<Rightarrow> JStr m | None \<Rightarrow> state st ''mode'') \<and>
      state (yaesu_parse resp (updateState now) getState st) ''ptt'' = state st ''ptt'')"
proof (intro conjI impI)
  assume a: "length resp \<ge> 37 \<and> substring resp 0 2 = ''IF'' \<and> list_all isDigit (substring resp 2 13)"
  then have p: "parseInt (substring resp 2 13) = Some (decimalValue (substring resp 2 13))"
    by (intro parseInt_digits substring_nonempty) auto
  note k = kenwood_parse_IF [of resp "updateState now" getState st] 
  show "state (kenwood_parse resp (updateState now) getState st) ''freq'' =
        (if decimalValue (substring resp 2 13) > 0 then JNum (decimalValue (substring resp 2 13))
         else state st ''freq'')"
    using a by (simp add: k p Let_def state_updateState_at)
  show "state (kenwood_parse resp (updateState now) getState st) ''mode'' =
        (case kenwood_MODES [resp ! 29] of Some m \<Rightarrow> JStr m | None \<Rightarrow> state st ''mode'')"
    using a by (simp add: k p Let_def state_updateState_at getState_def split: option.split)
  show "state (kenwood_parse resp (updateState now) getState st) ''ptt'' =
        JBool (resp ! 28 \<noteq> CHR ''0'')"
    using a by (simp add: k p Let_def state_updateState_at)
next
  assume a: "length resp \<ge> 29 \<and> substring resp 0 2 = ''IF'' \<and> list_all isDigit (substring resp 2 11)"
  then have p: "parseInt (substring resp 2 11) = Some (decimalValue (substring resp 2 11))"
    by (intro parseInt_digits substring_nonempty) auto
  note k = yaesu_parse_IF [of resp "updateState now" getState st] 
  show "state (yaesu_parse resp (updateState now) getState st) ''freq'' =
        (if decimalValue (substring resp 2 11) > 0 then JNum (decimalValue (substring resp 2 11))
         else state st ''freq'')"
    using a by (simp add: k p Let_def state_updateState_at)
  show "state (yaesu_parse resp (updateState now) getState st) ''mode'' =
        (case yaesu_MODES [resp ! 21] of Some m \<Rightarrow> JStr m | None \<Rightarrow> state st ''mode'')"
    using a by (simp add: k p Let_def state_updateState_at getState_def split: option.split)
  show "state (yaesu_parse resp (updateState now) getState st) ''ptt'' =
        JBool (resp ! 28 \<noteq> CHR ''0'')"
    using a by (simp add: k p Let_def state_updateState_at)
next
  assume a: "length resp \<ge> 27 \<and> length resp < 29 \<and> substring resp 0 2 = ''IF'' \<and>
    list_all isDigit (substring resp 2 11)"
  then have p: "parseInt (substring resp 2 11) = Some (decimalValue (substring resp 2 11))"
    by (intro parseInt_digits substring_nonempty) auto
  note k = yaesu_parse_IF_short [of resp "updateState now" getState st]
  show "state (yaesu_parse resp (updateState now) getState st) ''freq'' =
        (if decimalValue (substring resp 2 11) > 0 then JNum (decimalValue (substring resp 2 11))
         else state st ''freq'')"
    using a by (simp add: k p Let_def state_updateState_at)
  show "state (yaesu_parse resp (updateState now) getState st) ''mode'' =
        (case yaesu_MODES [resp ! 21] of Some m \<Rightarrow> JStr m | None \<Rightarrow> state st ''mode'')"
    using a by (simp add: k p Let_def state_updateState_at getState_def split: option.split)
  show "state (yaesu_parse resp (updateState now) getState st) ''ptt'' = state st ''ptt''"
    using a by (simp add: k p Let_def state_updateState_at)
qed

theorem parse_IF_composite_status_witness:
  "map (state (kenwood_parse ''IF00014074000     +00000000002000000 ;'' (updateState 1000) getState
          \<lparr>state = initial_state(''mode'' := JStr ''LSB'', ''ptt'' := JBool True), sseClients = []\<rparr>))
     [''freq'', ''mode'', ''ptt''] = [JNum 14074000, JStr ''USB'', JBool False] \<and>
   map (state (yaesu_parse ''IF014074000+000000000200000000;'' (updateState 1000) getState
          \<lparr>state = initial_state(''mode'' := JStr ''LSB'', ''ptt'' := JBool True), sseClients = []\<rparr>))
     [''freq'', ''mode'', ''ptt''] = [JNum 14074000, JStr ''USB'', JBool False] \<and>
   map (state (yaesu_parse ''IF014074000+00000000020000;'' (updateState 1000) getState
          \<lparr>state = initial_state(''mode'' := JStr ''LSB'', ''ptt'' := JBool True), sseClients = []\<rparr>))
     [''freq'', ''mode'', ''ptt''] = [JNum 14074000, JStr ''USB'', JBool True]"
  using parse_IF_composite_status [of "''IF00014074000     +00000000002000000 ;''" 1000
          "\<lparr>state = initial_state(''mode'' := JStr ''LSB'', ''ptt'' := JBool True), sseClients = []\<rparr>"]
        parse_IF_composite_status [of "''IF014074000+000000000200000000;''" 1000
          "\<lparr>state = initial_state(''mode'' := JStr ''LSB'', ''ptt'' := JBool True), sseClients = []\<rparr>"]
        parse_IF_composite_status [of "''IF014074000+00000000020000;''" 1000
          "\<lparr>state = initial_state(''mode'' := JStr ''LSB'', ''ptt'' := JBool True), sseClients = []\<rparr>"]
  by (simp add: substring_def decimalValue_def digitVal_def isDigit_def kenwood_MODES_def
        yaesu_MODES_def)

lemma updateState_getState:
  "state st p \<noteq> JNaN \<Longrightarrow> updateState now p (getState p st) st = st"
  by (simp add: updateState_def getState_def strict_neq_def)

lemma kenwood_parse_ignored:
  assumes "length resp < 2 \<or> substring resp 0 2 \<notin> {''IF'', ''FA'', ''MD''}"
  shows "kenwood_parse resp upd get s = s"
  using assms by (auto simp: kenwood_parse_def Let_def)

lemma yaesu_parse_ignored:
  assumes "length resp < 2 \<or> substring resp 0 2 \<notin> {''IF'', ''FA'', ''MD'', ''TX'', ''RX''}"
  shows "yaesu_parse resp upd get s = s"
  using assms by (auto simp: yaesu_parse_def Let_def)

lemma kenwood_parse_FA:
  assumes "substring resp 0 2 = ''FA''"
  shows "kenwood_parse resp upd get s =
     (case parseInt (substringFrom resp 2) of
        None \<Rightarrow> s
      | Some f \<Rightarrow> if f > 0 then upd ''freq'' (JNum f) s else s)"
  using assms by (auto simp: kenwood_parse_def Let_def substring_def split: option.splits)

lemma yaesu_parse_FA:
  assumes "substring resp 0 2 = ''FA''"
  shows "yaesu_parse resp upd get s =
     (case parseInt (substringFrom resp 2) of
        None \<Rightarrow> s
      | Some f \<Rightarrow> if f > 0 then upd ''freq'' (JNum f) s else s)"
  using assms by (auto simp: yaesu_parse_def Let_def substring_def split: option.splits)

lemma kenwood_parse_MD:
  assumes "substring resp 0 2 = ''MD''" and "kenwood_MODES (charAt resp 2) = None"
  shows "kenwood_parse resp upd get s = upd ''mode'' (get ''mode'' s) s"
  using assms by (auto simp: kenwood_parse_def Let_def substring_def)

lemma yaesu_parse_MD:
  assumes "substring resp 0 2 = ''MD''"
    and "yaesu_MODES (if length (substringFrom resp 2) \<ge> 2 then charAt (substringFrom resp 2) 1
                      else charAt (substringFrom resp 2) 0) = None"
  shows "yaesu_parse resp upd get s = upd ''mode'' (get ''mode'' s) s"
  using assms by (auto simp: yaesu_parse_def Let_def substring_def)

text \<open>
  C9, as the code has it. A call of either \<^verbatim>\<open>parse\<close> on a string returns: it does not
  throw, whatever the string (a call on a truthy value that is not a string does
  throw). A line shorter than two characters or with an unrecognised prefix invokes
  neither callback, whatever the callbacks are, and so does an \<open>IF\<close> line below the
  minimum width (37 for Kenwood, 27 for Yaesu). An \<open>FA\<close> line has no width check: the
  number that \<^verbatim>\<open>parseInt\<close> reads after the prefix is written to \<open>freq\<close> when it is
  positive, however few digits there are, and nothing is written otherwise. An \<open>MD\<close>
  line without a known mode character makes one call, writing the known mode back,
  which leaves the shared store as it was when the known mode is not \<^verbatim>\<open>NaN\<close>.
\<close>

theorem parse_returns_and_drops_garbage:
  "kenwood_parse_call (JStr resp) upd get s = Returns (kenwood_parse resp upd get s) \<and>
   yaesu_parse_call (JStr resp) upd get s = Returns (yaesu_parse resp upd get s) \<and>
   (length resp < 2 \<or> substring resp 0 2 \<notin> {''IF'', ''FA'', ''MD''}
      \<longrightarrow> kenwood_parse resp upd get s = s) \<and>
   (substring resp 0 2 = ''IF'' \<and> length resp < 37 \<longrightarrow> kenwood_parse resp upd get s = s) \<and>
   (substring resp 0 2 = ''FA'' \<longrightarrow>
      kenwood_parse resp upd get s =
        (case parseInt (substringFrom resp 2) of
           None \<Rightarrow> s
         | Some f \<Rightarrow> if f > 0 then upd ''freq'' (JNum f) s else s)) \<and>
   (substring resp 0 2 = ''MD'' \<and> kenwood_MODES (charAt resp 2) = None \<longrightarrow>
      kenwood_parse resp upd get s = upd ''mode'' (get ''mode'' s) s \<and>
      (state st ''mode'' \<noteq> JNaN \<longrightarrow> kenwood_parse resp (updateState now) getState st = st)) \<and>
   (length resp < 2 \<or> substring resp 0 2 \<notin> {''IF'', ''FA'', ''MD'', ''TX'', ''RX''}
      \<longrightarrow> yaesu_parse resp upd get s = s) \<and>
   (substring resp 0 2 = ''IF'' \<and> length resp < 27 \<longrightarrow> yaesu_parse resp upd get s = s) \<and>
   (substring resp 0 2 = ''FA'' \<longrightarrow>
      yaesu_parse resp upd get s =
        (case parseInt (substringFrom resp 2) of
           None \<Rightarrow> s
         | Some f \<Rightarrow> if f > 0 then upd ''freq'' (JNum f) s else s)) \<and>
   (substring resp 0 2 = ''MD'' \<and>
    yaesu_MODES (if length (substringFrom resp 2) \<ge> 2 then charAt (substringFrom resp 2) 1
                 else charAt (substringFrom resp 2) 0) = None \<longrightarrow>
      yaesu_parse resp upd get s = upd ''mode'' (get ''mode'' s) s \<and>
      (state st ''mode'' \<noteq> JNaN \<longrightarrow> yaesu_parse resp (updateState now) getState st = st))"
proof (intro conjI impI)
  show "kenwood_parse_call (JStr resp) upd get s = Returns (kenwood_parse resp upd get s)"
    by (cases "resp = []") (simp_all add: kenwood_parse_call_def kenwood_parse_def)
  show "yaesu_parse_call (JStr resp) upd get s = Returns (yaesu_parse resp upd get s)"
    by (cases "resp = []") (simp_all add: yaesu_parse_call_def yaesu_parse_def)
next
  assume "length resp < 2 \<or> substring resp 0 2 \<notin> {''IF'', ''FA'', ''MD''}"
  then show "kenwood_parse resp upd get s = s" by (rule kenwood_parse_ignored)
next
  assume "substring resp 0 2 = ''IF'' \<and> length resp < 37"
  then show "kenwood_parse resp upd get s = s" by (simp add: kenwood_parse_def Let_def)
next
  assume "substring resp 0 2 = ''FA''"
  then show "kenwood_parse resp upd get s =
        (case parseInt (substringFrom resp 2) of
           None \<Rightarrow> s
         | Some f \<Rightarrow> if f > 0 then upd ''freq'' (JNum f) s else s)"
    by (rule kenwood_parse_FA)
next
  assume a: "substring resp 0 2 = ''MD'' \<and> kenwood_MODES (charAt resp 2) = None"
  then show "kenwood_parse resp upd get s = upd ''mode'' (get ''mode'' s) s"
    by (simp add: kenwood_parse_MD)
  assume "state st ''mode'' \<noteq> JNaN"
  with a show "kenwood_parse resp (updateState now) getState st = st"
    by (simp add: kenwood_parse_MD updateState_getState)
next
  assume "length resp < 2 \<or> substring resp 0 2 \<notin> {''IF'', ''FA'', ''MD'', ''TX'', ''RX''}"
  then show "yaesu_parse resp upd get s = s" by (rule yaesu_parse_ignored)
next
  assume "substring resp 0 2 = ''IF'' \<and> length resp < 27"
  then show "yaesu_parse resp upd get s = s" by (simp add: yaesu_parse_def Let_def)
next
  assume "substring resp 0 2 = ''FA''"
  then show "yaesu_parse resp upd get s =
        (case parseInt (substringFrom resp 2) of
           None \<Rightarrow> s
         | Some f \<Rightarrow> if f > 0 then upd ''freq'' (JNum f) s else s)"
    by (rule yaesu_parse_FA)
next
  assume a: "substring resp 0 2 = ''MD'' \<and>
    yaesu_MODES (if length (substringFrom resp 2) \<ge> 2 then charAt (substringFrom resp 2) 1
                 else charAt (substringFrom resp 2) 0) = None"
  then show "yaesu_parse resp upd get s = upd ''mode'' (get ''mode'' s) s"
    by (simp add: yaesu_parse_MD)
  assume "state st ''mode'' \<noteq> JNaN"
  with a show "yaesu_parse resp (updateState now) getState st = st"
    by (simp add: yaesu_parse_MD updateState_getState)
qed

theorem parse_returns_and_drops_garbage_witness:
  "kenwood_parse_call (JStr ''?;'') logCall (\<lambda>p calls. JUndefined) [] = Returns [] \<and>
   yaesu_parse_call (JStr ''?;'') logCall (\<lambda>p calls. JUndefined) [] = Returns [] \<and>
   kenwood_parse_call (JNum 5) logCall (\<lambda>p calls. JUndefined) [] = Throws ''TypeError'' \<and>
   kenwood_parse [] logCall (\<lambda>p calls. JUndefined) [] = [] \<and>
   kenwood_parse ''IF00014074'' logCall (\<lambda>p calls. JUndefined) [] = [] \<and>
   kenwood_parse ''FA;'' logCall (\<lambda>p calls. JUndefined) [] = [] \<and>
   kenwood_parse ''MD'' (updateState 1000) getState \<lparr>state = initial_state, sseClients = [(1, [])]\<rparr>
     = \<lparr>state = initial_state, sseClients = [(1, [])]\<rparr> \<and>
   yaesu_parse ''I'' logCall (\<lambda>p calls. JUndefined) [] = [] \<and>
   yaesu_parse ''IF01407'' logCall (\<lambda>p calls. JUndefined) [] = [] \<and>
   yaesu_parse ''FA'' logCall (\<lambda>p calls. JUndefined) [] = [] \<and>
   yaesu_parse ''MD;'' (updateState 1000) getState \<lparr>state = initial_state, sseClients = [(1, [])]\<rparr>
     = \<lparr>state = initial_state, sseClients = [(1, [])]\<rparr>"
proof -
  let ?g = "\<lambda>(p::string) (calls::(string \<times> jsval) list). JUndefined"
  let ?st = "\<lparr>state = initial_state, sseClients = [(1, [])]\<rparr>"
  note t = parse_returns_and_drops_garbage
             [where upd = logCall and get = ?g and s = "[]" and now = 1000 and st = ?st]
  have m: "state ?st ''mode'' \<noteq> JNaN" by (simp add: initial_state_def)
  have "kenwood_parse_call (JStr ''?;'') logCall ?g [] = Returns []"
    using t [of "''?;''"] by (simp add: substring_def)
  moreover have "yaesu_parse_call (JStr ''?;'') logCall ?g [] = Returns []"
    using t [of "''?;''"] by (simp add: substring_def)
  moreover have "kenwood_parse_call (JNum 5) logCall ?g [] = Throws ''TypeError''"
    by (simp add: kenwood_parse_call_def)
  moreover have "kenwood_parse [] logCall ?g [] = []"
    using t [of "[]"] by simp
  moreover have "kenwood_parse ''IF00014074'' logCall ?g [] = []"
    using t [of "''IF00014074''"] by (simp add: substring_def)
  moreover have "kenwood_parse ''FA;'' logCall ?g [] = []"
    using t [of "''FA;''"]
    by (simp add: substring_def substringFrom_def parseInt_def isWhiteSpace_def isDigit_def)
  moreover have "kenwood_parse ''MD'' (updateState 1000) getState ?st = ?st"
    using t [of "''MD''"] m by (simp add: substring_def charAt_def kenwood_MODES_def)
  moreover have "yaesu_parse ''I'' logCall ?g [] = []"
    using t [of "''I''"] by simp
  moreover have "yaesu_parse ''IF01407'' logCall ?g [] = []"
    using t [of "''IF01407''"] by (simp add: substring_def)
  moreover have "yaesu_parse ''FA'' logCall ?g [] = []"
    using t [of "''FA''"] by (simp add: substring_def substringFrom_def parseInt_def)
  moreover have "yaesu_parse ''MD;'' (updateState 1000) getState ?st = ?st"
    using t [of "''MD;''"] m
    by (simp add: substring_def substringFrom_def charAt_def yaesu_MODES_def)
  ultimately show ?thesis by (intro conjI)
qed

text \<open>
  C9 as stated fails on a truncated frequency reply: the Kenwood reply
  \<open>FA00014074000;\<close> cut after eight characters, and the Yaesu reply \<open>FA014074000;\<close>
  cut after six, are too short for their shape, and each makes \<^verbatim>\<open>parse\<close> call
  \<^verbatim>\<open>updateState('freq', 140)\<close>; a store tuned to 14074000 Hz then holds 140 Hz.
\<close>

theorem parse_truncated_FA_sets_freq:
  "kenwood_parse ''FA000140'' logCall (\<lambda>p calls. JUndefined) [] = [(''freq'', JNum 140)] \<and>
   yaesu_parse ''FA0140'' logCall (\<lambda>p calls. JUndefined) [] = [(''freq'', JNum 140)] \<and>
   state \<lparr>state = initial_state(''freq'' := JNum 14074000), sseClients = []\<rparr> ''freq''
     = JNum 14074000 \<and>
   state (kenwood_parse ''FA000140'' (updateState 1000) getState
            \<lparr>state = initial_state(''freq'' := JNum 14074000), sseClients = []\<rparr>) ''freq''
     = JNum 140"
proof -
  have p8: "parseInt (substringFrom ''FA000140'' 2) = Some 140"
    by (simp add: substringFrom_def parseInt_def isWhiteSpace_def isDigit_def decimalValue_def
          digitVal_def)
  have p6: "parseInt (substringFrom ''FA0140'' 2) = Some 140"
    by (simp add: substringFrom_def parseInt_def isWhiteSpace_def isDigit_def decimalValue_def
          digitVal_def)
  have k: "substring ''FA000140'' 0 2 = ''FA''" and y: "substring ''FA0140'' 0 2 = ''FA''"
    by (simp_all add: substring_def)
  show ?thesis
    by (simp add: kenwood_parse_FA [OF k] yaesu_parse_FA [OF y] p8 p6 logCall_def
          state_updateState_at)
qed

section \<open>Properties of the CI-V codec and reframer\<close>

lemma smod_nonneg: "0 \<le> (f::int) \<Longrightarrow> f smod 10 = f mod 10"
  by (simp add: signed_modulo_int_def sgn_if)

lemma nibble_low:
  fixes lo hi :: int
  assumes "0 \<le> lo" "lo < 16"
  shows "(push_bit 4 hi OR lo) AND 15 = lo"
proof -
  have lo: "take_bit 4 lo = lo" using assms by (simp add: take_bit_int_eq_self)
  have m: "(15::int) = mask 4" by (simp add: mask_eq_exp_minus_1)
  have "take_bit 4 (push_bit 4 hi OR lo) = take_bit 4 lo"
    by (simp add: take_bit_or take_bit_push_bit)
  then show ?thesis
    unfolding m by (simp only: take_bit_eq_mask [symmetric] lo)
qed

lemma nibble_high:
  fixes lo hi :: int
  assumes "0 \<le> lo" "lo < 16" "0 \<le> hi" "hi < 16"
  shows "drop_bit 4 (push_bit 4 hi OR lo) AND 15 = hi"
proof -
  have lo: "drop_bit 4 lo = 0" using assms by (simp add: drop_bit_eq_div)
  have hi: "take_bit 4 hi = hi" using assms by (simp add: take_bit_int_eq_self)
  have m: "(15::int) = mask 4" by (simp add: mask_eq_exp_minus_1)
  have "drop_bit 4 (push_bit 4 hi OR lo) = hi"
    by (simp add: drop_bit_or drop_bit_push_bit lo)
  then show ?thesis
    unfolding m by (simp only: take_bit_eq_mask [symmetric] hi)
qed

lemma mod_100_split: "(f::int) mod 100 = f mod 10 + 10 * (f div 10 mod 10)"
proof -
  have "f mod (10 * 10) = 10 * (f div 10 mod 10) + f mod 10"
    by (rule zmod_zmult2_eq) simp
  then show ?thesis by simp
qed

lemma bcd_roundtrip_loop:
  "0 \<le> f \<Longrightarrow> bcdToFreq_loop (freqToBCD_loop n f) freq mult = freq + mult * (f mod 100 ^ n)"
proof (induction n arbitrary: f freq mult)
  case 0
  then show ?case by simp
next
  case (Suc n)
  let ?lo = "f mod 10" and ?hi = "f div 10 mod 10" and ?f2 = "f div 10 div 10"
  have f2: "0 \<le> ?f2" using Suc.prems by (simp add: pos_imp_zdiv_nonneg_iff)
  have f1: "0 \<le> f div 10" using Suc.prems by (simp add: pos_imp_zdiv_nonneg_iff)
  have lo: "(push_bit 4 ?hi OR ?lo) AND 15 = ?lo"
    by (rule nibble_low) simp_all
  have hi: "drop_bit 4 (push_bit 4 ?hi OR ?lo) AND 15 = ?hi"
    by (rule nibble_high) simp_all
  have enc: "freqToBCD_loop (Suc n) f = (push_bit 4 ?hi OR ?lo) # freqToBCD_loop n ?f2"
    using Suc.prems f1 by (simp add: Let_def smod_nonneg)
  have f2eq: "?f2 = f div 100"
    using zdiv_zmult2_eq [of 10 f 10] by simp
  have split: "100 * (f div 100 mod 100 ^ n) + f mod 100 = f mod 100 ^ Suc n"
    using zmod_zmult2_eq [of "100 ^ n" f 100] by simp
  have "bcdToFreq_loop (freqToBCD_loop (Suc n) f) freq mult =
        bcdToFreq_loop (freqToBCD_loop n ?f2) (freq + ?lo * mult + ?hi * (mult * 10)) (mult * 10 * 10)"
    unfolding enc by (simp only: bcdToFreq_loop.simps Let_def lo hi)
  also have "\<dots> = freq + ?lo * mult + ?hi * (mult * 10) + mult * 10 * 10 * (?f2 mod 100 ^ n)"
    by (rule Suc.IH [OF f2])
  also have "\<dots> = freq + mult * (100 * (f div 100 mod 100 ^ n) + f mod 100)"
    unfolding f2eq mod_100_split by (simp only: algebra_simps)
  finally show ?case unfolding split .
qed

text \<open>
  C2. For every integer frequency \<open>f\<close> with \<open>0 \<le> f < 10^10\<close>, decoding the five bytes
  that \<^verbatim>\<open>freqToBCD\<close> produces gives \<open>f\<close> back.
\<close>

theorem bcd_roundtrip:
  assumes "0 \<le> f" and "f < 10 ^ 10"
  shows "bcdToFreq (freqToBCD f) = f"
proof -
  have "bcdToFreq (freqToBCD f) = f mod 100 ^ 5"
    using bcd_roundtrip_loop [OF assms(1), of 5 0 1] by (simp add: bcdToFreq_def freqToBCD_def)
  also have "\<dots> = f" using assms by simp
  finally show ?thesis .
qed

theorem bcd_roundtrip_witness:
  "freqToBCD 14074000 = [0x00, 0x40, 0x07, 0x14, 0x00] \<and> bcdToFreq (freqToBCD 14074000) = 14074000"
proof -
  have h1: "(0::int) \<le> 14074000" by simp
  have h2: "(14074000::int) < 10 ^ 10" by simp
  have enc: "freqToBCD 14074000 = [0x00, 0x40, 0x07, 0x14, 0x00]" by code_simp
  show ?thesis using bcd_roundtrip [OF h1 h2] enc by simp
qed

lemma indexOf0_None_iff: "indexOf0 xs v = None \<longleftrightarrow> v \<notin> set xs"
  by (induction xs) auto

lemma indexOf0_append:
  "indexOf0 (xs @ ys) v =
     (case indexOf0 xs v of
        Some k \<Rightarrow> Some k
      | None \<Rightarrow> map_option (\<lambda>k. length xs + k) (indexOf0 ys v))"
proof (induction xs)
  case Nil
  show ?case by (cases "indexOf0 ys v") simp_all
next
  case (Cons x xs)
  show ?case
    by (cases "indexOf0 xs v"; cases "indexOf0 ys v") (simp_all add: Cons.IH)
qed

lemma indexOf_zero: "indexOf buf v 0 = indexOf0 buf v"
  by (simp add: indexOf_def option.map_ident)

lemma indexOf0_hd: "indexOf0 xs v = Some k \<Longrightarrow> indexOf0 (drop k xs) v = Some 0"
  by (induction xs arbitrary: k) (auto split: if_splits)

lemma indexOf_append_found:
  "indexOf a v off = Some e \<Longrightarrow> indexOf (a @ b) v off = Some e"
  by (auto simp: indexOf_def indexOf0_append dest: indexOf0_bound)

text \<open>One round on a buffer whose first start sentinel is at \<open>start\<close> is the round on
  the buffer cut there.\<close>

lemma reframe_drop_start:
  assumes "indexOf buf 0xFE 0 = Some start"
  shows "reframe h buf s = reframe h (drop start buf) s"
proof -
  have z: "indexOf (drop start buf) 0xFE 0 = Some 0"
    using assms by (simp add: indexOf_zero indexOf0_hd)
  show ?thesis
    by (subst (1 2) reframe.simps) (simp add: assms z)
qed

lemma reframe_noise:
  assumes "0xFE \<notin> set a"
  shows "reframe h (a @ b) s = reframe h b s"
proof -
  have na: "indexOf0 a 0xFE = None"
    using assms by (simp add: indexOf0_None_iff)
  show ?thesis
  proof (cases "indexOf0 b 0xFE")
    case None
    then show ?thesis
      by (subst (1 2) reframe.simps) (simp add: indexOf_zero indexOf0_append na)
  next
    case (Some k)
    have a: "indexOf (a @ b) 0xFE 0 = Some (length a + k)"
      using Some by (simp add: indexOf_zero indexOf0_append na)
    have b: "indexOf b 0xFE 0 = Some k"
      using Some by (simp add: indexOf_zero)
    show ?thesis
      by (simp add: reframe_drop_start [OF a] reframe_drop_start [OF b])
  qed
qed

lemma reframe_append:
  "reframe h (a @ b) s = (case reframe h a s of (r, s') \<Rightarrow> reframe h (r @ b) s')"
proof (induction h a s rule: reframe.induct)
  case (1 h buf s)
  show ?case
  proof (cases "indexOf buf 0xFE 0")
    case None
    then have "0xFE \<notin> set buf" by (simp add: indexOf_zero indexOf0_None_iff)
    then have "reframe h (buf @ b) s = reframe h b s" by (rule reframe_noise)
    moreover have "reframe h buf s = ([], s)"
      using None by (subst reframe.simps) simp
    ultimately show ?thesis by simp
  next
    case (Some start)
    define buf1 where "buf1 = (if 0 < start then drop start buf else buf)"
    have buf1: "buf1 = drop start buf" by (simp add: buf1_def)
    have ab: "indexOf (buf @ b) 0xFE 0 = Some start"
      using Some by (rule indexOf_append_found)
    have start: "start < length buf" using Some by (simp add: indexOf_bound)
    have l: "reframe h (buf @ b) s = reframe h (buf1 @ b) s"
      using reframe_drop_start [OF ab] start by (simp add: buf1)
    have z: "indexOf (buf1 @ b) 0xFE 0 = Some 0"
      using Some by (intro indexOf_append_found) (simp add: buf1 indexOf_zero indexOf0_hd)
    show ?thesis
    proof (cases "indexOf buf1 0xFD 2")
      case None
      have "reframe h buf s = (buf1, s)"
        using Some None by (subst reframe.simps) (simp add: buf1_def)
      then show ?thesis by (simp add: l)
    next
      case (Some e)
      define frame where "frame = take (e + 1) buf1"
      define buf2 where "buf2 = drop (e + 1) buf1"
      have e: "e < length buf1" using Some by (simp add: indexOf_bound)
      have eb: "indexOf (buf1 @ b) 0xFD 2 = Some e"
        using Some by (rule indexOf_append_found)
      have r: "reframe h buf s = reframe h buf2 (h frame s)"
        using \<open>indexOf buf 0xFE 0 = Some start\<close> Some
        by (subst reframe.simps) (simp add: buf1_def frame_def buf2_def)
      have "reframe h (buf1 @ b) s = reframe h (buf2 @ b) (h frame s)"
        using z eb e by (subst reframe.simps) (simp add: frame_def buf2_def)
      also have "\<dots> = (case reframe h buf2 (h frame s) of (r, s') \<Rightarrow> reframe h (r @ b) s')"
        using "1.IH" [OF \<open>indexOf buf 0xFE 0 = Some start\<close> buf1_def Some frame_def buf2_def] .
      finally show ?thesis by (simp add: l r)
    qed
  qed
qed

lemma reframe_Nil: "reframe h [] s = ([], s)"
  by (subst reframe.simps) (simp add: indexOf_def)

lemma feed_append:
  "feed h chunks (reframe h a s) = reframe h (a @ concat chunks) s"
proof (induction chunks arbitrary: a s)
  case Nil
  then show ?case by simp
next
  case (Cons d chunks)
  obtain r s' where rs: "reframe h a s = (r, s')" by (cases "reframe h a s")
  have "feed h (d # chunks) (reframe h a s) = feed h chunks (reframe h (r @ d) s')"
    by (simp add: rs)
  also have "reframe h (r @ d) s' = reframe h (a @ d) s"
    by (simp add: reframe_append [of h a d s] rs)
  also have "feed h chunks (reframe h (a @ d) s) = reframe h ((a @ d) @ concat chunks) s"
    by (rule Cons.IH)
  finally show ?case by simp
qed

lemma feed_whole: "feed h chunks ([], s) = reframe h (concat chunks) s"
  using feed_append [of h chunks "[]" s] by (simp add: reframe_Nil)

lemma feedChunks_feed: "feedChunks upd get chunks acc = feed (processFrame upd get) chunks acc"
  by (induction chunks arbitrary: acc) (simp_all add: handleData_def)

text \<open>
  C1. Feeding a byte stream to \<^verbatim>\<open>handleData\<close> chunk by chunk, each call given the
  buffer the previous one returned and the first an empty buffer, ends with the same
  buffer and the same state as one call on the whole stream, for every pair of
  callbacks and every way of cutting the stream; and the frames the loop slices out
  are the same, in the same order. The witness is a frequency frame cut inside its
  start sentinel: nothing happens on the first chunk, one \<open>freq\<close> update on the second.
\<close>

theorem handleData_chunk_independent:
  "feedChunks upd get chunks ([], s) = handleData (concat chunks) [] upd get s \<and>
   feed recordFrame chunks ([], []) = reframe recordFrame (concat chunks) []"
  by (simp add: feedChunks_feed feed_whole handleData_def)

theorem handleData_chunk_independent_witness:
  "handleData [0xFE] [] (updateState 1000) getState \<lparr>state = initial_state, sseClients = [(1, [])]\<rparr>
     = ([0xFE], \<lparr>state = initial_state, sseClients = [(1, [])]\<rparr>) \<and>
   fst (feedChunks (updateState 1000) getState
          [[0xFE], [0xFE, 0xE0, 0x94, 0x03, 0x00, 0x40, 0x07, 0x14, 0x00, 0xFD]]
          ([], \<lparr>state = initial_state, sseClients = [(1, [])]\<rparr>)) = [] \<and>
   state (snd (feedChunks (updateState 1000) getState
          [[0xFE], [0xFE, 0xE0, 0x94, 0x03, 0x00, 0x40, 0x07, 0x14, 0x00, 0xFD]]
          ([], \<lparr>state = initial_state, sseClients = [(1, [])]\<rparr>))) ''freq'' = JNum 14074000 \<and>
   sseClients (snd (feedChunks (updateState 1000) getState
          [[0xFE], [0xFE, 0xE0, 0x94, 0x03, 0x00, 0x40, 0x07, 0x14, 0x00, 0xFD]]
          ([], \<lparr>state = initial_state, sseClients = [(1, [])]\<rparr>)))
     = [(1, [Update ''freq'' (JNum 14074000)])] \<and>
   snd (feed recordFrame [[0xFE], [0xFE, 0xE0, 0x94, 0x03, 0x00, 0x40, 0x07, 0x14, 0x00, 0xFD]] ([], []))
     = [[0xFE, 0xFE, 0xE0, 0x94, 0x03, 0x00, 0x40, 0x07, 0x14, 0x00, 0xFD]]"
proof -
  let ?st = "\<lparr>state = initial_state, sseClients = [(1, [])]\<rparr>"
  let ?chunks = "[[0xFE], [0xFE, 0xE0, 0x94, 0x03, 0x00, 0x40, 0x07, 0x14, 0x00, 0xFD]] :: byte list list"
  note t = handleData_chunk_independent [of "updateState 1000" getState ?chunks ?st]
  have first: "handleData [0xFE] [] (updateState 1000) getState ?st = ([0xFE], ?st)"
    by (simp add: handleData_def reframe.simps indexOf_def)
  have b: "fst (handleData (concat ?chunks) [] (updateState 1000) getState ?st) = []"
    by code_simp
  have f: "state (snd (handleData (concat ?chunks) [] (updateState 1000) getState ?st)) ''freq''
             = JNum 14074000"
    by code_simp
  have c: "sseClients (snd (handleData (concat ?chunks) [] (updateState 1000) getState ?st))
             = [(1, [Update ''freq'' (JNum 14074000)])]"
    by code_simp
  have r: "snd (reframe recordFrame (concat ?chunks) [])
             = [[0xFE, 0xFE, 0xE0, 0x94, 0x03, 0x00, 0x40, 0x07, 0x14, 0x00, 0xFD]]"
    by code_simp
  show ?thesis
    unfolding t [THEN conjunct1] t [THEN conjunct2] using first b f c r by (intro conjI)
qed

lemma processFrame_not_addressed:
  "length frame < 6 \<or> frame ! 2 \<noteq> CONTROLLER \<Longrightarrow> processFrame upd get frame s = s"
  by (auto simp: processFrame_def Let_def)

lemma reframe_first_frame:
  assumes "slicedFrame frame"
  shows "reframe h (frame @ rest) s = reframe h rest (h frame s)"
proof -
  from assms have fe: "indexOf frame 0xFE 0 = Some 0"
    and fd: "indexOf frame 0xFD 2 = Some (length frame - 1)"
    by (simp_all add: slicedFrame_def)
  from fd have len: "0 < length frame"
    using indexOf_bound [of frame "0xFD" 2 "length frame - 1"] by (cases frame) simp_all
  have a: "indexOf (frame @ rest) 0xFE 0 = Some 0"
    using fe by (rule indexOf_append_found)
  have b: "indexOf (frame @ rest) 0xFD 2 = Some (length frame - 1)"
    using fd by (rule indexOf_append_found)
  show ?thesis
    using len by (subst reframe.simps) (simp add: a b)
qed

text \<open>
  C5. A frame whose \<open>to\<close> byte (index 2) is not the controller address \<open>0xE0\<close>, or
  that is shorter than six bytes, makes the loop body invoke no callback: the state
  is returned as it is, and a callback that records the \<^verbatim>\<open>updateState\<close> calls
  records none. When such a frame is the first one in the accumulated buffer,
  \<^verbatim>\<open>handleData\<close> does exactly what it does on the bytes after it.
\<close>

theorem frame_for_other_address_ignored:
  "(length frame < 6 \<or> frame ! 2 \<noteq> CONTROLLER \<longrightarrow>
      processFrame upd get frame s = s \<and>
      processFrame logCall get' frame calls = calls) \<and>
   (slicedFrame frame \<and> frame ! 2 \<noteq> CONTROLLER \<and> rxBuf @ data = frame @ rest \<longrightarrow>
      handleData data rxBuf upd get s = reframe (processFrame upd get) rest s)"
proof (intro conjI impI)
  assume "length frame < 6 \<or> frame ! 2 \<noteq> CONTROLLER"
  then show "processFrame upd get frame s = s" and "processFrame logCall get' frame calls = calls"
    by (rule processFrame_not_addressed)+
next
  assume a: "slicedFrame frame \<and> frame ! 2 \<noteq> CONTROLLER \<and> rxBuf @ data = frame @ rest"
  then have "handleData data rxBuf upd get s =
             reframe (processFrame upd get) rest (processFrame upd get frame s)"
    by (simp add: handleData_def reframe_first_frame)
  with a show "handleData data rxBuf upd get s = reframe (processFrame upd get) rest s"
    by (simp add: processFrame_not_addressed)
qed

theorem frame_for_other_address_ignored_witness:
  "slicedFrame [0xFE, 0xFE, 0x94, 0xE0, 0x03, 0x00, 0x40, 0x07, 0x14, 0x00, 0xFD] \<and>
   processFrame logCall (\<lambda>p calls. JUndefined)
     [0xFE, 0xFE, 0x94, 0xE0, 0x03, 0x00, 0x40, 0x07, 0x14, 0x00, 0xFD] [] = [] \<and>
   handleData [0x03, 0x00, 0x40, 0x07, 0x14, 0x00, 0xFD] [0xFE, 0xFE, 0x94, 0xE0]
     logCall (\<lambda>p calls. JUndefined) [] = ([], []) \<and>
   processFrame logCall (\<lambda>p calls. JUndefined)
     [0xFE, 0xFE, 0xE0, 0x94, 0x03, 0x00, 0x40, 0x07, 0x14, 0x00, 0xFD] []
     = [(''freq'', JNum 14074000)]"
proof -
  let ?f = "[0xFE, 0xFE, 0x94, 0xE0, 0x03, 0x00, 0x40, 0x07, 0x14, 0x00, 0xFD] :: byte list"
  let ?g = "\<lambda>(p::string) (calls::(string \<times> jsval) list). JUndefined"
  have sl: "slicedFrame ?f" by code_simp
  have to: "?f ! 2 \<noteq> CONTROLLER" by code_simp
  have cut: "[0xFE, 0xFE, 0x94, 0xE0] @ [0x03, 0x00, 0x40, 0x07, 0x14, 0x00, 0xFD] = ?f @ []"
    by simp
  note t = frame_for_other_address_ignored
             [of ?f logCall ?g "[]" ?g "[]" "[0xFE, 0xFE, 0x94, 0xE0]"
                 "[0x03, 0x00, 0x40, 0x07, 0x14, 0x00, 0xFD]" "[]"]
  have p: "processFrame logCall ?g ?f [] = []"
    using t to by simp
  have h: "handleData [0x03, 0x00, 0x40, 0x07, 0x14, 0x00, 0xFD] [0xFE, 0xFE, 0x94, 0xE0] logCall ?g []
             = ([], [])"
    using t sl to cut by (simp add: reframe_Nil)
  have ours: "processFrame logCall ?g
     [0xFE, 0xFE, 0xE0, 0x94, 0x03, 0x00, 0x40, 0x07, 0x14, 0x00, 0xFD] []
     = [(''freq'', JNum 14074000)]"
    by code_simp
  show ?thesis using sl p h ours by (intro conjI)
qed

section \<open>Properties of the registry, the PTT route and the flrig plugin\<close>

lemma switchPlugin_held:
  assumes "rig_instance r = Some old" and "props old ''disconnect'' = Some fd"
  shows "switchPlugin ident r w =
     (let w1 = snd (fd [] w);
          r1 = r\<lparr>rig_instance := None, activeId := None\<rparr>;
          dis = Invoke (inst_id old) ''disconnect'' []
      in if ident = [] \<or> ident = ''none'' then (r1, w1, [dis])
         else
           (case descriptors r ident of
              None \<Rightarrow> (r1, w1, [dis])
            | Some d \<Rightarrow>
                (case create d w1 of
                   (Throws e, w2) \<Rightarrow> (r1, w2, [dis, Create ident])
                 | (Returns inst, w2) \<Rightarrow>
                     (case props inst ''connect'' of
                        None \<Rightarrow> (r1, w2, [dis, Create ident])
                      | Some fc \<Rightarrow>
                          (case fc [] w2 of
                             (Throws e, w3) \<Rightarrow>
                               (r1, w3, [dis, Create ident, Invoke (inst_id inst) ''connect'' []])
                           | (Returns u, w3) \<Rightarrow>
                               (r1\<lparr>rig_instance := Some inst, activeId := Some ident\<rparr>, w3,
                                [dis, Create ident, Invoke (inst_id inst) ''connect'' []]))))))"
proof -
  obtain res w1 where fd: "fd [] w = (res, w1)" by (cases "fd [] w")
  show ?thesis
    using assms fd
    by (simp add: switchPlugin_def call_method_def Let_def
             split: option.split prod.split result.split)
qed

lemma switchPlugin_empty:
  assumes "rig_instance r = None"
  shows "switchPlugin ident r w =
     (if ident = [] \<or> ident = ''none'' then (r, w, [])
      else
        (case descriptors r ident of
           None \<Rightarrow> (r, w, [])
         | Some d \<Rightarrow>
             (case create d w of
                (Throws e, w2) \<Rightarrow> (r\<lparr>rig_instance := None, activeId := None\<rparr>, w2, [Create ident])
              | (Returns inst, w2) \<Rightarrow>
                  (case props inst ''connect'' of
                     None \<Rightarrow> (r\<lparr>rig_instance := None, activeId := None\<rparr>, w2, [Create ident])
                   | Some fc \<Rightarrow>
                       (case fc [] w2 of
                          (Throws e, w3) \<Rightarrow>
                            (r\<lparr>rig_instance := None, activeId := None\<rparr>, w3,
                             [Create ident, Invoke (inst_id inst) ''connect'' []])
                        | (Returns u, w3) \<Rightarrow>
                            (r\<lparr>rig_instance := Some inst, activeId := Some ident\<rparr>, w3,
                             [Create ident, Invoke (inst_id inst) ''connect'' []]))))))"
  using assms
  by (simp add: switchPlugin_def call_method_def Let_def
           split: option.split prod.split result.split)

lemma switchPlugin_no_disconnect:
  assumes "rig_instance r = None \<or> (\<exists>old. rig_instance r = Some old \<and> props old ''disconnect'' = None)"
  shows "filter is_disconnect (snd (snd (switchPlugin ident r w))) = []"
proof -
  have e: "rig_instance r = None \<Longrightarrow> ?thesis"
    by (simp add: switchPlugin_empty is_disconnect_def split: option.split prod.split result.split)
  have n: "\<And>old. rig_instance r = Some old \<Longrightarrow> props old ''disconnect'' = None \<Longrightarrow> ?thesis"
    by (simp add: switchPlugin_def call_method_def Let_def is_disconnect_def
             split: option.split prod.split result.split)
  from assms e n show ?thesis by blast
qed

text \<open>
  C6, as the code has it. Let the registry hold an instance \<open>old\<close> whose \<^verbatim>\<open>disconnect\<close>
  is the function \<open>fd\<close>, whatever state the instance is in. Then \<^verbatim>\<open>switchPlugin\<close> runs
  \<open>fd\<close> first, once, on the world it is called in, and everything else happens in the
  world \<open>fd\<close> leaves, also when \<open>fd\<close> throws: with no plugin to start, nothing else
  happens; otherwise the factory runs in that world, and \<^verbatim>\<open>connect\<close> of the instance
  the factory returned runs in the world the factory leaves. The registry then holds
  that new instance when its \<^verbatim>\<open>connect()\<close> returned, and no instance otherwise: an
  instance whose \<^verbatim>\<open>connect()\<close> throws is dropped on the spot, with no \<^verbatim>\<open>disconnect()\<close>
  call. When the registry holds no instance, \<^verbatim>\<open>switchPlugin\<close> calls no
  \<^verbatim>\<open>disconnect()\<close> at all.
\<close>

theorem switchPlugin_disconnects_held_instance:
  "(rig_instance r = Some old \<and> props old ''disconnect'' = Some fd \<and>
    (ident = [] \<or> ident = ''none'' \<or> descriptors r ident = None) \<longrightarrow>
      switchPlugin ident r w =
        (r\<lparr>rig_instance := None, activeId := None\<rparr>, snd (fd [] w),
         [Invoke (inst_id old) ''disconnect'' []])) \<and>
   (rig_instance r = Some old \<and> props old ''disconnect'' = Some fd \<and>
    ident \<noteq> [] \<and> ident \<noteq> ''none'' \<and> descriptors r ident = Some d \<and>
    create d (snd (fd [] w)) = (Throws e, wc) \<longrightarrow>
      switchPlugin ident r w =
        (r\<lparr>rig_instance := None, activeId := None\<rparr>, wc,
         [Invoke (inst_id old) ''disconnect'' [], Create ident])) \<and>
   (rig_instance r = Some old \<and> props old ''disconnect'' = Some fd \<and>
    ident \<noteq> [] \<and> ident \<noteq> ''none'' \<and> descriptors r ident = Some d \<and>
    create d (snd (fd [] w)) = (Returns inst, wc) \<and> props inst ''connect'' = Some fc \<and>
    fc [] wc = (Returns u, wn) \<longrightarrow>
      switchPlugin ident r w =
        (r\<lparr>rig_instance := Some inst, activeId := Some ident\<rparr>, wn,
         [Invoke (inst_id old) ''disconnect'' [], Create ident,
          Invoke (inst_id inst) ''connect'' []])) \<and>
   (rig_instance r = Some old \<and> props old ''disconnect'' = Some fd \<and>
    ident \<noteq> [] \<and> ident \<noteq> ''none'' \<and> descriptors r ident = Some d \<and>
    create d (snd (fd [] w)) = (Returns inst, wc) \<and> props inst ''connect'' = Some fc \<and>
    fc [] wc = (Throws e, wn) \<longrightarrow>
      switchPlugin ident r w =
        (r\<lparr>rig_instance := None, activeId := None\<rparr>, wn,
         [Invoke (inst_id old) ''disconnect'' [], Create ident,
          Invoke (inst_id inst) ''connect'' []])) \<and>
   (rig_instance r = Some old \<and> props old ''disconnect'' = Some fd \<and>
    ident \<noteq> [] \<and> ident \<noteq> ''none'' \<and> descriptors r ident = Some d \<and>
    create d (snd (fd [] w)) = (Returns inst, wc) \<and> props inst ''connect'' = None \<longrightarrow>
      switchPlugin ident r w =
        (r\<lparr>rig_instance := None, activeId := None\<rparr>, wc,
         [Invoke (inst_id old) ''disconnect'' [], Create ident])) \<and>
   (rig_instance r = None \<and> ident \<noteq> [] \<and> ident \<noteq> ''none'' \<and> descriptors r ident = Some d \<and>
    create d w = (Returns inst, wc) \<and> props inst ''connect'' = Some fc \<and>
    fc [] wc = (Throws e, wn) \<longrightarrow>
      switchPlugin ident r w =
        (r\<lparr>rig_instance := None, activeId := None\<rparr>, wn,
         [Create ident, Invoke (inst_id inst) ''connect'' []])) \<and>
   (rig_instance r = None \<and> ident \<noteq> [] \<and> ident \<noteq> ''none'' \<and> descriptors r ident = Some d \<and>
    create d w = (Returns inst, wc) \<and> props inst ''connect'' = Some fc \<and>
    fc [] wc = (Returns u, wn) \<longrightarrow>
      switchPlugin ident r w =
        (r\<lparr>rig_instance := Some inst, activeId := Some ident\<rparr>, wn,
         [Create ident, Invoke (inst_id inst) ''connect'' []])) \<and>
   (rig_instance r = None \<or> (\<exists>i. rig_instance r = Some i \<and> props i ''disconnect'' = None) \<longrightarrow>
      filter is_disconnect (snd (snd (switchPlugin ident r w))) = [])"
proof (intro conjI impI)
  assume "rig_instance r = Some old \<and> props old ''disconnect'' = Some fd \<and>
    (ident = [] \<or> ident = ''none'' \<or> descriptors r ident = None)"
  then show "switchPlugin ident r w =
        (r\<lparr>rig_instance := None, activeId := None\<rparr>, snd (fd [] w),
         [Invoke (inst_id old) ''disconnect'' []])"
    by (auto simp: switchPlugin_held Let_def)
next
  assume "rig_instance r = Some old \<and> props old ''disconnect'' = Some fd \<and>
    ident \<noteq> [] \<and> ident \<noteq> ''none'' \<and> descriptors r ident = Some d \<and>
    create d (snd (fd [] w)) = (Throws e, wc)"
  then show "switchPlugin ident r w =
        (r\<lparr>rig_instance := None, activeId := None\<rparr>, wc,
         [Invoke (inst_id old) ''disconnect'' [], Create ident])"
    by (simp add: switchPlugin_held Let_def)
next
  assume "rig_instance r = Some old \<and> props old ''disconnect'' = Some fd \<and>
    ident \<noteq> [] \<and> ident \<noteq> ''none'' \<and> descriptors r ident = Some d \<and>
    create d (snd (fd [] w)) = (Returns inst, wc) \<and> props inst ''connect'' = Some fc \<and>
    fc [] wc = (Returns u, wn)"
  then show "switchPlugin ident r w =
        (r\<lparr>rig_instance := Some inst, activeId := Some ident\<rparr>, wn,
         [Invoke (inst_id old) ''disconnect'' [], Create ident,
          Invoke (inst_id inst) ''connect'' []])"
    by (simp add: switchPlugin_held Let_def)
next
  assume "rig_instance r = Some old \<and> props old ''disconnect'' = Some fd \<and>
    ident \<noteq> [] \<and> ident \<noteq> ''none'' \<and> descriptors r ident = Some d \<and>
    create d (snd (fd [] w)) = (Returns inst, wc) \<and> props inst ''connect'' = Some fc \<and>
    fc [] wc = (Throws e, wn)"
  then show "switchPlugin ident r w =
        (r\<lparr>rig_instance := None, activeId := None\<rparr>, wn,
         [Invoke (inst_id old) ''disconnect'' [], Create ident,
          Invoke (inst_id inst) ''connect'' []])"
    by (simp add: switchPlugin_held Let_def)
next
  assume "rig_instance r = Some old \<and> props old ''disconnect'' = Some fd \<and>
    ident \<noteq> [] \<and> ident \<noteq> ''none'' \<and> descriptors r ident = Some d \<and>
    create d (snd (fd [] w)) = (Returns inst, wc) \<and> props inst ''connect'' = None"
  then show "switchPlugin ident r w =
        (r\<lparr>rig_instance := None, activeId := None\<rparr>, wc,
         [Invoke (inst_id old) ''disconnect'' [], Create ident])"
    by (simp add: switchPlugin_held Let_def)
next
  assume "rig_instance r = None \<and> ident \<noteq> [] \<and> ident \<noteq> ''none'' \<and> descriptors r ident = Some d \<and>
    create d w = (Returns inst, wc) \<and> props inst ''connect'' = Some fc \<and>
    fc [] wc = (Throws e, wn)"
  then show "switchPlugin ident r w =
        (r\<lparr>rig_instance := None, activeId := None\<rparr>, wn,
         [Create ident, Invoke (inst_id inst) ''connect'' []])"
    by (simp add: switchPlugin_empty)
next
  assume "rig_instance r = None \<and> ident \<noteq> [] \<and> ident \<noteq> ''none'' \<and> descriptors r ident = Some d \<and>
    create d w = (Returns inst, wc) \<and> props inst ''connect'' = Some fc \<and>
    fc [] wc = (Returns u, wn)"
  then show "switchPlugin ident r w =
        (r\<lparr>rig_instance := Some inst, activeId := Some ident\<rparr>, wn,
         [Create ident, Invoke (inst_id inst) ''connect'' []])"
    by (simp add: switchPlugin_empty)
next
  assume "rig_instance r = None \<or> (\<exists>i. rig_instance r = Some i \<and> props i ''disconnect'' = None)"
  then show "filter is_disconnect (snd (snd (switchPlugin ident r w))) = []"
    by (rule switchPlugin_no_disconnect)
qed

theorem switchPlugin_disconnects_held_instance_witness:
  "switchPlugin ''steady''
     (probe_registry\<lparr>rig_instance := Some (probe_instance 2 False), activeId := Some ''steady''\<rparr>)
     \<lparr>journal = [(2, ''create''), (2, ''connect'')], made = 3\<rparr>
   = (probe_registry\<lparr>rig_instance := Some (probe_instance 3 False), activeId := Some ''steady''\<rparr>,
      \<lparr>journal = [(2, ''create''), (2, ''connect''), (2, ''disconnect''), (3, ''create''),
                  (3, ''connect'')], made = 4\<rparr>,
      [Invoke 2 ''disconnect'' [], Create ''steady'', Invoke 3 ''connect'' []]) \<and>
   switchPlugin ''faulty''
     (probe_registry\<lparr>rig_instance := Some (probe_instance 2 False), activeId := Some ''steady''\<rparr>)
     \<lparr>journal = [(2, ''create''), (2, ''connect'')], made = 3\<rparr>
   = (probe_registry,
      \<lparr>journal = [(2, ''create''), (2, ''connect''), (2, ''disconnect''), (3, ''create''),
                  (3, ''connect'')], made = 4\<rparr>,
      [Invoke 2 ''disconnect'' [], Create ''faulty'', Invoke 3 ''connect'' []]) \<and>
   switchPlugin ''none''
     (probe_registry\<lparr>rig_instance := Some (probe_instance 2 False), activeId := Some ''steady''\<rparr>)
     \<lparr>journal = [(2, ''create''), (2, ''connect'')], made = 3\<rparr>
   = (probe_registry,
      \<lparr>journal = [(2, ''create''), (2, ''connect''), (2, ''disconnect'')], made = 3\<rparr>,
      [Invoke 2 ''disconnect'' []])"
proof -
  let ?r = "probe_registry\<lparr>rig_instance := Some (probe_instance 2 False), activeId := Some ''steady''\<rparr>"
  let ?w = "\<lparr>journal = [(2, ''create''), (2, ''connect'')], made = 3\<rparr>"
  let ?w1 = "\<lparr>journal = [(2, ''create''), (2, ''connect''), (2, ''disconnect'')], made = 3\<rparr>"
  let ?w2 = "\<lparr>journal = [(2, ''create''), (2, ''connect''), (2, ''disconnect''), (3, ''create'')],
              made = 4\<rparr>"
  let ?w3 = "\<lparr>journal = [(2, ''create''), (2, ''connect''), (2, ''disconnect''), (3, ''create''),
                         (3, ''connect'')], made = 4\<rparr>"
  have held: "rig_instance ?r = Some (probe_instance 2 False)" by simp
  have fd: "props (probe_instance 2 False) ''disconnect'' = Some (probe_disconnect 2)"
    by (simp add: probe_instance_def)
  have w1: "snd (probe_disconnect 2 [] ?w) = ?w1"
    by (simp add: probe_disconnect_def)
  have ds: "descriptors ?r ''steady'' = Some (probe_plugin False)"
    and df: "descriptors ?r ''faulty'' = Some (probe_plugin True)"
    by (simp_all add: probe_registry_def)
  have cs: "create (probe_plugin False) ?w1 = (Returns (probe_instance 3 False), ?w2)"
    and cf: "create (probe_plugin True) ?w1 = (Returns (probe_instance 3 True), ?w2)"
    by (simp_all add: probe_plugin_def probe_create_def)
  have ps: "props (probe_instance 3 False) ''connect'' = Some (probe_connect 3 False)"
    and pf: "props (probe_instance 3 True) ''connect'' = Some (probe_connect 3 True)"
    by (simp_all add: probe_instance_def)
  have fs: "probe_connect 3 False [] ?w2 = (Returns (), ?w3)"
    and ff: "probe_connect 3 True [] ?w2 = (Throws ''connect failed'', ?w3)"
    by (simp_all add: probe_connect_def)
  have ids: "inst_id (probe_instance 2 False) = 2" "inst_id (probe_instance 3 False) = 3"
    "inst_id (probe_instance 3 True) = 3"
    by (simp_all add: probe_instance_def)
  have clear: "probe_registry\<lparr>rig_instance := None, activeId := None\<rparr> = probe_registry"
    by (simp add: probe_registry_def)
  note t = switchPlugin_disconnects_held_instance
             [where r = ?r and old = "probe_instance 2 False" and fd = "probe_disconnect 2" and w = ?w]
  have a: "switchPlugin ''steady'' ?r ?w =
      (probe_registry\<lparr>rig_instance := Some (probe_instance 3 False), activeId := Some ''steady''\<rparr>,
       ?w3, [Invoke 2 ''disconnect'' [], Create ''steady'', Invoke 3 ''connect'' []])"
    using t [where ident = "''steady''" and d = "probe_plugin False" and wc = ?w2
               and inst = "probe_instance 3 False" and fc = "probe_connect 3 False" and u = "()"
               and wn = ?w3]
      held fd ds
    by (simp add: w1 cs ps fs ids)
  have b: "switchPlugin ''faulty'' ?r ?w =
      (probe_registry, ?w3, [Invoke 2 ''disconnect'' [], Create ''faulty'', Invoke 3 ''connect'' []])"
    using t [where ident = "''faulty''" and d = "probe_plugin True" and wc = ?w2
               and inst = "probe_instance 3 True" and fc = "probe_connect 3 True"
               and e = "''connect failed''" and wn = ?w3]
      held fd df
    by (simp add: w1 cf pf ff ids clear)
  have c: "switchPlugin ''none'' ?r ?w = (probe_registry, ?w1, [Invoke 2 ''disconnect'' []])"
    using t [where ident = "''none''"] held fd
    by (simp add: w1 ids clear)
  show ?thesis using a b c by (intro conjI)
qed

text \<open>
  C6 as stated fails for a previous instance that never connected because its
  \<^verbatim>\<open>connect()\<close> threw. Switching to the \<open>faulty\<close> plugin creates instance 0 and
  calls its \<^verbatim>\<open>connect()\<close>, which throws; the registry then holds nothing. The next
  switch, to \<open>steady\<close>, creates and connects instance 1, and the journal the plugin
  code keeps shows that \<^verbatim>\<open>disconnect()\<close> of instance 0 was never called.
\<close>

theorem switchPlugin_failed_instance_never_disconnected:
  "map_option inst_id
     (rig_instance (fst (switchPlugin ''faulty'' probe_registry \<lparr>journal = [], made = 0\<rparr>))) = None \<and>
   journal (fst (snd (switchPlugin ''faulty'' probe_registry \<lparr>journal = [], made = 0\<rparr>)))
     = [(0, ''create''), (0, ''connect'')] \<and>
   journal (fst (snd (switchPlugin ''steady''
       (fst (switchPlugin ''faulty'' probe_registry \<lparr>journal = [], made = 0\<rparr>))
       (fst (snd (switchPlugin ''faulty'' probe_registry \<lparr>journal = [], made = 0\<rparr>))))))
     = [(0, ''create''), (0, ''connect''), (1, ''create''), (1, ''connect'')] \<and>
   snd (snd (switchPlugin ''steady''
       (fst (switchPlugin ''faulty'' probe_registry \<lparr>journal = [], made = 0\<rparr>))
       (fst (snd (switchPlugin ''faulty'' probe_registry \<lparr>journal = [], made = 0\<rparr>)))))
     = [Create ''steady'', Invoke 1 ''connect'' []] \<and>
   map_option inst_id (rig_instance (fst (switchPlugin ''steady''
       (fst (switchPlugin ''faulty'' probe_registry \<lparr>journal = [], made = 0\<rparr>))
       (fst (snd (switchPlugin ''faulty'' probe_registry \<lparr>journal = [], made = 0\<rparr>))))))
     = Some 1"
  by (intro conjI; code_simp)

text \<open>
  C10. \<^verbatim>\<open>dispatch(method, ...args)\<close> returns \<^verbatim>\<open>false\<close>, calls nothing and changes
  nothing when the registry holds no instance or the instance has no function under
  that name. Otherwise it calls that function once, with the arguments given; the
  world afterwards is the one the function left, and the result is \<^verbatim>\<open>true\<close> when the
  function returns (what the function throws is thrown on).
\<close>

theorem dispatch_spec:
  "(rig_instance r = None \<or> (\<exists>inst. rig_instance r = Some inst \<and> props inst m = None) \<longrightarrow>
      dispatch m args r w = (Returns False, w, [])) \<and>
   (rig_instance r = Some inst \<and> props inst m = Some f \<longrightarrow>
      snd (snd (dispatch m args r w)) = [Invoke (inst_id inst) m args] \<and>
      fst (snd (dispatch m args r w)) = snd (f args w) \<and>
      fst (dispatch m args r w) =
        (case fst (f args w) of Returns u \<Rightarrow> Returns True | Throws e \<Rightarrow> Throws e))"
  by (auto simp: dispatch_def split: option.splits prod.splits result.splits)

theorem dispatch_spec_witness:
  "dispatch ''setPTT'' [JBool True] (flrig_registry\<lparr>rig_instance := None\<rparr>) tuned_world
     = (Returns False, tuned_world, []) \<and>
   dispatch ''tune'' [] flrig_registry tuned_world = (Returns False, tuned_world, []) \<and>
   fst (dispatch ''setPTT'' [JBool True] flrig_registry tuned_world) = Returns True \<and>
   snd (snd (dispatch ''setPTT'' [JBool True] flrig_registry tuned_world))
     = [Invoke 0 ''setPTT'' [JBool True]] \<and>
   rpc_calls (fst (snd (dispatch ''setPTT'' [JBool True] flrig_registry tuned_world)))
     = [(''rig.set_ptt'', [RpcVal (JNum 1)])]"
proof -
  have h: "rig_instance flrig_registry = Some (flrig_instance 0)"
    by (simp add: flrig_registry_def)
  have p: "props (flrig_instance 0) ''setPTT'' = Some (flrig_setPTT 0)"
    and q: "props (flrig_instance 0) ''tune'' = None"
    and i: "inst_id (flrig_instance 0) = 0"
    by (simp_all add: flrig_instance_def)
  have c: "flrig_setPTT 0 [JBool True] tuned_world
             = (Returns (), tuned_world\<lparr>rpc_calls := [(''rig.set_ptt'', [RpcVal (JNum 1)])]\<rparr>)"
    by (simp add: flrig_setPTT_def tuned_world_def arg0_def)
  have a: "dispatch ''setPTT'' [JBool True] (flrig_registry\<lparr>rig_instance := None\<rparr>) tuned_world
     = (Returns False, tuned_world, [])"
    using dispatch_spec [of "flrig_registry\<lparr>rig_instance := None\<rparr>" "''setPTT''" "[JBool True]" tuned_world]
    by simp
  have b: "dispatch ''tune'' [] flrig_registry tuned_world = (Returns False, tuned_world, [])"
    using dispatch_spec [of flrig_registry "''tune''" "[]" tuned_world] h q by simp
  note d = dispatch_spec [of flrig_registry "''setPTT''" "[JBool True]" tuned_world "flrig_instance 0" "flrig_setPTT 0"]
  show ?thesis
    using a b d h p by (simp add: i c)
qed

text \<open>
  C8. A \<^verbatim>\<open>POST /ptt\<close> whose \<open>ptt\<close> is truthy while \<^verbatim>\<open>config.radio.pttEnabled\<close> is
  falsy is answered with status 403 and an error body; the registry makes no call into
  the plugin and the world, the rig state in it, is unchanged.
\<close>

theorem post_ptt_rejected_when_disabled:
  "truthy ptt \<and> \<not> truthy pttEnabled \<longrightarrow>
     fst (post_ptt ptt pttEnabled r w)
       = Returns \<lparr>status = 403, body = ErrorBody ''PTT disabled in configuration''\<rparr> \<and>
     fst (snd (post_ptt ptt pttEnabled r w)) = w \<and>
     snd (snd (post_ptt ptt pttEnabled r w)) = []"
  by (simp add: post_ptt_def)

theorem post_ptt_rejected_when_disabled_witness:
  "post_ptt (JBool True) (JBool False) flrig_registry tuned_world
     = (Returns \<lparr>status = 403, body = ErrorBody ''PTT disabled in configuration''\<rparr>, tuned_world, []) \<and>
   fst (post_ptt (JBool True) (JBool True) flrig_registry tuned_world)
     = Returns \<lparr>status = 200, body = SuccessBody\<rparr> \<and>
   snd (snd (post_ptt (JBool True) (JBool True) flrig_registry tuned_world))
     = [Invoke 0 ''setPTT'' [JBool True]]"
proof -
  have ok: "fst (post_ptt (JBool True) (JBool True) flrig_registry tuned_world)
     = Returns \<lparr>status = 200, body = SuccessBody\<rparr>"
    by code_simp
  have tr: "snd (snd (post_ptt (JBool True) (JBool True) flrig_registry tuned_world))
     = [Invoke 0 ''setPTT'' [JBool True]]"
    by code_simp
  show ?thesis
    using post_ptt_rejected_when_disabled [of "JBool True" "JBool False" flrig_registry tuned_world] ok tr
    by (simp add: prod_eq_iff)
qed

lemma rig_store_flrig_disconnect:
  "rig_store (snd (flrig_disconnect i args w)) = updateState (clock w) ''connected'' (JBool False) (rig_store w)"
  by (simp add: flrig_disconnect_def flrig_stopPolling_def service_updateState_def Let_def)

lemma closures_flrig_disconnect:
  "closures (snd (flrig_disconnect i args w)) i = \<lparr>client = False, pollTimer = False\<rparr>"
  by (simp add: flrig_disconnect_def flrig_stopPolling_def service_updateState_def Let_def)

lemma switchPlugin_none:
  "rig_instance r = Some old \<Longrightarrow> props old ''disconnect'' = Some fd \<Longrightarrow>
     switchPlugin ''none'' r w =
       (r\<lparr>rig_instance := None, activeId := None\<rparr>, snd (fd [] w),
        [Invoke (inst_id old) ''disconnect'' []])"
  by (simp add: switchPlugin_held)

lemma props_flrig_disconnect: "props (flrig_instance i) ''disconnect'' = Some (flrig_disconnect i)"
  by (simp add: flrig_instance_def)

text \<open>
  C7, as the code has it. \<^verbatim>\<open>disconnect()\<close> of the flrig plugin stops the polling
  timer, drops the client and sets \<open>connected\<close> to \<^verbatim>\<open>false\<close>; the fields \<open>freq\<close>,
  \<open>mode\<close>, \<open>width\<close> and \<open>ptt\<close> keep their values. \<^verbatim>\<open>switchPlugin\<close> away from a flrig
  instance leaves the world that \<^verbatim>\<open>disconnect()\<close> leaves.
\<close>

theorem flrig_disconnect_keeps_fields:
  "state (rig_store (snd (flrig_disconnect i args w))) ''connected'' = JBool False \<and>
   state (rig_store (snd (flrig_disconnect i args w))) ''freq'' = state (rig_store w) ''freq'' \<and>
   state (rig_store (snd (flrig_disconnect i args w))) ''mode'' = state (rig_store w) ''mode'' \<and>
   state (rig_store (snd (flrig_disconnect i args w))) ''width'' = state (rig_store w) ''width'' \<and>
   state (rig_store (snd (flrig_disconnect i args w))) ''ptt'' = state (rig_store w) ''ptt'' \<and>
   closures (snd (flrig_disconnect i args w)) i = \<lparr>client = False, pollTimer = False\<rparr> \<and>
   (rig_instance r = Some (flrig_instance i) \<longrightarrow>
      fst (snd (switchPlugin ''none'' r w)) = snd (flrig_disconnect i [] w))"
  by (simp add: rig_store_flrig_disconnect closures_flrig_disconnect state_updateState_at
        switchPlugin_none [OF _ props_flrig_disconnect])

theorem flrig_disconnect_keeps_fields_witness:
  "rig_instance flrig_registry = Some (flrig_instance 0) \<and>
   map (state (rig_store (fst (snd (switchPlugin ''none'' flrig_registry tuned_world)))))
     [''connected'', ''freq'', ''mode'', ''width'', ''ptt'']
     = [JBool False, JNum 14074000, JStr ''USB'', JNum 2800, JBool False]"
proof -
  have h: "rig_instance flrig_registry = Some (flrig_instance 0)"
    by (simp add: flrig_registry_def)
  have v: "map (state (rig_store tuned_world)) [''freq'', ''mode'', ''width'', ''ptt'']
             = [JNum 14074000, JStr ''USB'', JNum 2800, JBool False]"
    by (simp add: tuned_world_def initial_state_def)
  show ?thesis
    using h v flrig_disconnect_keeps_fields [of 0 "[]" tuned_world flrig_registry]
    by simp
qed

text \<open>
  C7 as stated fails: disconnecting the flrig instance of a rig tuned to 14.074 MHz in
  USB leaves \<open>freq\<close>, \<open>mode\<close> and \<open>width\<close> at values that are not the initial ones.
\<close>

theorem flrig_disconnect_does_not_reset:
  "state (rig_store (snd (flrig_disconnect 0 [] tuned_world))) ''connected'' = JBool False \<and>
   state (rig_store (snd (flrig_disconnect 0 [] tuned_world))) ''freq'' = JNum 14074000 \<and>
   state (rig_store (snd (flrig_disconnect 0 [] tuned_world))) ''freq'' \<noteq> initial_state ''freq'' \<and>
   state (rig_store (snd (flrig_disconnect 0 [] tuned_world))) ''mode'' = JStr ''USB'' \<and>
   state (rig_store (snd (flrig_disconnect 0 [] tuned_world))) ''mode'' \<noteq> initial_state ''mode'' \<and>
   state (rig_store (snd (flrig_disconnect 0 [] tuned_world))) ''width'' \<noteq> initial_state ''width''"
  by (simp add: rig_store_flrig_disconnect state_updateState_at tuned_world_def initial_state_def)

end
